theory Spec2Isabelle
  imports Main "HOL-Library.Sublist"
begin

section \<open>Error model\<close>

text \<open>
  The package-level sentinel values that \<^verbatim>\<open>errors.Is\<close> compares by identity.
  Their names are the ones used by \<^verbatim>\<open>TestAPIError_fillSentinel\<close>.
\<close>

datatype sentinel =
    ErrInvalidApiKey
  | ErrRateLimited
  | ErrInsufficientCredits
  | ErrTierRestricted
  | ErrInvalidModel
  | ErrProvider
  | ErrContentFiltered

text \<open>
  A leaf error value that an \<^verbatim>\<open>APIError\<close> can wrap: one of the sentinels, or some
  other value made with \<^verbatim>\<open>errors.New\<close> (as in \<^verbatim>\<open>TestAPIError_Unwrap\<close>).
\<close>

datatype base_error = Sentinel sentinel | ErrorString string

text \<open>
  Modelled from the spec: the declaration of \<^verbatim>\<open>APIError\<close> is not among the sources.
  The fields are the ones the sources and tests write (\<^verbatim>\<open>StatusCode\<close>, \<^verbatim>\<open>Code\<close>,
  \<^verbatim>\<open>Message\<close>, \<^verbatim>\<open>Err\<close>); \<open>Err = None\<close> is Go's \<^verbatim>\<open>nil\<close>.
\<close>

record APIError =
  StatusCode :: int
  Code :: string
  Message :: string
  Err :: "base_error option"

text \<open>
  Errors as \<^verbatim>\<open>doRequest\<close> and \<^verbatim>\<open>Stream\<close> produce them: a pointer to an
  \<^verbatim>\<open>APIError\<close>, an error value of a library (\<^verbatim>\<open>encoding/json\<close>, \<^verbatim>\<open>net/http\<close>,
  \<^verbatim>\<open>io\<close>) identified by its text, or \<^verbatim>\<open>fmt.Errorf("<prefix>: %w", err)\<close>.
\<close>

datatype go_error =
    APIErr APIError
  | LibErr string
  | Wrapf string go_error

text \<open>
  Modelled from the spec: the sentinel table (a fixed mapping from machine code strings
  to sentinel values), with the seven codes the spec and \<^verbatim>\<open>TestAPIError_fillSentinel\<close>
  list.
\<close>

definition sentinelTable :: "(string \<times> sentinel) list" where
  "sentinelTable =
     [(''INVALID_API_KEY'', ErrInvalidApiKey),
      (''RATE_LIMIT_EXCEEDED'', ErrRateLimited),
      (''INSUFFICIENT_CREDITS'', ErrInsufficientCredits),
      (''TIER_RESTRICTED'', ErrTierRestricted),
      (''INVALID_MODEL'', ErrInvalidModel),
      (''PROVIDER_ERROR'', ErrProvider),
      (''CONTENT_FILTERED'', ErrContentFiltered)]"

definition sentinelMap :: "string \<rightharpoonup> sentinel" where
  "sentinelMap = map_of sentinelTable"

text \<open>
  Modelled from the spec: \<^verbatim>\<open>fillSentinel\<close> is called by \<^verbatim>\<open>Stream\<close> but its body is
  not among the sources. It looks up \<open>Code\<close> in the sentinel table and sets the wrapped
  error if found; for an unrecognised code it changes nothing.
\<close>

definition fillSentinel :: "APIError \<Rightarrow> APIError" where
  "fillSentinel e =
     (case sentinelMap (Code e) of
        Some s \<Rightarrow> e\<lparr>Err := Some (Sentinel s)\<rparr>
      | None \<Rightarrow> e)"

text \<open>Modelled from the spec: \<^verbatim>\<open>Unwrap\<close> returns the wrapped sentinel or attached cause.\<close>

definition Unwrap :: "APIError \<Rightarrow> base_error option" where
  "Unwrap e = Err e"

text \<open>
  \<^verbatim>\<open>errors.Is(err, target)\<close> for a leaf target: walk the chain of \<^verbatim>\<open>Unwrap\<close>, comparing
  each link with the target. An \<^verbatim>\<open>*APIError\<close> and a library error are never identical
  to a leaf made by \<^verbatim>\<open>errors.New\<close>.
\<close>

fun errors_Is :: "go_error \<Rightarrow> base_error \<Rightarrow> bool" where
  "errors_Is (APIErr e) target = (Unwrap e = Some target)"
| "errors_Is (LibErr m) target = False"
| "errors_Is (Wrapf p e) target = errors_Is e target"

subsection \<open>Formatting\<close>

text \<open>Decimal rendering of an integer, as the verb \<^verbatim>\<open>%d\<close> prints it.\<close>

definition digit :: "nat \<Rightarrow> char" where
  "digit d = ''0123456789'' ! d"

function decimal :: "nat \<Rightarrow> string" where
  "decimal n = (if n < 10 then [digit n] else decimal (n div 10) @ [digit (n mod 10)])"
  by pat_completeness auto
termination
  by (relation "measure id") auto

declare decimal.simps [simp del]

definition itoa :: "int \<Rightarrow> string" where
  "itoa i = (if i < 0 then CHR ''-'' # decimal (nat (- i)) else decimal (nat i))"

text \<open>The namespace that prefixes every rendered error (see \<^verbatim>\<open>TestAPIError_Error\<close>).\<close>

definition namespace :: string where
  "namespace = ''cencori''"

text \<open>
  Modelled from the spec: the method \<^verbatim>\<open>Error\<close> of \<^verbatim>\<open>APIError\<close> is exercised by
  \<^verbatim>\<open>TestAPIError_Error\<close> but its body is not among the sources. The spec's
  \<^verbatim>\<open>format()\<close>: with a non-empty code the code is shown before the status.
\<close>

definition Error :: "APIError \<Rightarrow> string" where
  "Error e =
     (if Code e \<noteq> []
      then namespace @ '': '' @ Message e @ '' (code: '' @ Code e @ '', status: ''
             @ itoa (StatusCode e) @ '')''
      else namespace @ '': '' @ Message e @ '' (status: '' @ itoa (StatusCode e) @ '')'')"

section \<open>Standard library\<close>

text \<open>
  The functions of Go's standard library that the sources call (\<^verbatim>\<open>strings\<close>,
  \<^verbatim>\<open>bufio\<close>, \<^verbatim>\<open>io\<close>, \<^verbatim>\<open>net/http\<close>). A Go string is a sequence of bytes:
  \<open>string\<close>.
\<close>

subsection \<open>Strings\<close>

text \<open>
  \<^verbatim>\<open>strings.TrimSpace\<close> removes the leading and trailing white space, as Unicode
  defines it: the UTF-8 encodings of the code points that \<^verbatim>\<open>unicode.IsSpace\<close> accepts.
\<close>

definition space_runes :: "string list" where
  "space_runes =
     [[CHR 0x09], [CHR 0x0A], [CHR 0x0B], [CHR 0x0C], [CHR 0x0D], [CHR 0x20],
      [CHR 0xC2, CHR 0x85], [CHR 0xC2, CHR 0xA0], [CHR 0xE1, CHR 0x9A, CHR 0x80],
      [CHR 0xE2, CHR 0x80, CHR 0x80], [CHR 0xE2, CHR 0x80, CHR 0x81],
      [CHR 0xE2, CHR 0x80, CHR 0x82], [CHR 0xE2, CHR 0x80, CHR 0x83],
      [CHR 0xE2, CHR 0x80, CHR 0x84], [CHR 0xE2, CHR 0x80, CHR 0x85],
      [CHR 0xE2, CHR 0x80, CHR 0x86], [CHR 0xE2, CHR 0x80, CHR 0x87],
      [CHR 0xE2, CHR 0x80, CHR 0x88], [CHR 0xE2, CHR 0x80, CHR 0x89],
      [CHR 0xE2, CHR 0x80, CHR 0x8A], [CHR 0xE2, CHR 0x80, CHR 0xA8],
      [CHR 0xE2, CHR 0x80, CHR 0xA9], [CHR 0xE2, CHR 0x80, CHR 0xAF],
      [CHR 0xE2, CHR 0x81, CHR 0x9F], [CHR 0xE3, CHR 0x80, CHR 0x80]]"

definition leading_space :: "string list \<Rightarrow> string \<Rightarrow> nat" where
  "leading_space runes s = (case find (\<lambda>w. prefix w s) runes of None \<Rightarrow> 0 | Some w \<Rightarrow> length w)"

function TrimLeft :: "string list \<Rightarrow> string \<Rightarrow> string" where
  "TrimLeft runes s =
     (if leading_space runes s = 0 then s else TrimLeft runes (drop (leading_space runes s) s))"
  by pat_completeness auto
termination
proof (relation "measure (\<lambda>(runes, s). length s)")
  show "wf (measure (\<lambda>(runes, s). length s))"
    by simp
next
  fix runes :: "string list" and s :: string
  assume "leading_space runes s \<noteq> 0"
  moreover have "leading_space runes s \<le> length s"
    by (auto simp: leading_space_def find_Some_iff prefix_def split: option.splits)
  ultimately show "((runes, drop (leading_space runes s) s), (runes, s))
      \<in> measure (\<lambda>(runes, s). length s)"
    by simp
qed

declare TrimLeft.simps [simp del]

definition TrimSpace :: "string \<Rightarrow> string" where
  "TrimSpace s = rev (TrimLeft (map rev space_runes) (rev (TrimLeft space_runes s)))"

text \<open>\<^verbatim>\<open>strings.HasPrefix\<close>, \<^verbatim>\<open>strings.TrimPrefix\<close> and \<^verbatim>\<open>strings.Contains\<close>.\<close>

definition HasPrefix :: "string \<Rightarrow> string \<Rightarrow> bool" where
  "HasPrefix s p = prefix p s"

definition TrimPrefix :: "string \<Rightarrow> string \<Rightarrow> string" where
  "TrimPrefix s p = (if HasPrefix s p then drop (length p) s else s)"

fun Contains :: "string \<Rightarrow> string \<Rightarrow> bool" where
  "Contains [] substr = (substr = [])"
| "Contains (c # cs) substr = (prefix substr (c # cs) \<or> Contains cs substr)"

subsection \<open>Readers and HTTP messages\<close>

text \<open>
  How a sequence of reads ends once the data is exhausted: with \<^verbatim>\<open>io.EOF\<close> or with
  another error, identified by its text.
\<close>

datatype io_error = EOF | IOError string

text \<open>
  A response body (\<^verbatim>\<open>resp.Body\<close>) as one execution observes it: the bytes the transport
  delivers, and the error that the read after the last byte returns.
\<close>

record body =
  Data :: string
  End :: io_error

text \<open>\<^verbatim>\<open>io.ReadAll\<close>: all the bytes when the reads end with EOF, the error otherwise.\<close>

definition ReadAll :: "body \<Rightarrow> string + string" where
  "ReadAll b = (case End b of EOF \<Rightarrow> Inr (Data b) | IOError m \<Rightarrow> Inl m)"

text \<open>
  \<^verbatim>\<open>ReadString\<close> of a \<^verbatim>\<open>bufio.Reader\<close>, with the newline as delimiter: the bytes up
  to and including the first newline and no error; without a newline, the bytes that are left and the error that ends
  the reads. The third component is the body after the call.
\<close>

definition newline :: char where
  "newline = CHR 0x0A"

definition ReadString :: "body \<Rightarrow> string \<times> io_error option \<times> body" where
  "ReadString b =
     (if newline \<in> set (Data b)
      then (takeWhile (\<lambda>c. c \<noteq> newline) (Data b) @ [newline], None,
            b\<lparr>Data := tl (dropWhile (\<lambda>c. c \<noteq> newline) (Data b))\<rparr>)
      else (Data b, Some (End b), b\<lparr>Data := []\<rparr>))"

record http_request =
  Method :: string
  URL :: string
  Header :: "string \<rightharpoonup> string"
  Body :: "string option"

record http_response =
  resp_StatusCode :: int
  resp_Body :: body

definition StatusOK :: int where
  "StatusOK = 200"

text \<open>
  \<^verbatim>\<open>http.NewRequestWithContext\<close>: the argument \<open>check\<close> stands for the validation of the
  method and of the URL, which gives the text of an error or nothing.
\<close>

definition NewRequestWithContext ::
  "(string \<Rightarrow> string \<Rightarrow> string option) \<Rightarrow> string \<Rightarrow> string \<Rightarrow> string option
     \<Rightarrow> string + http_request" where
  "NewRequestWithContext check method url bodyReader =
     (case check method url of
        Some err \<Rightarrow> Inl err
      | None \<Rightarrow> Inr \<lparr>Method = method, URL = url, Header = Map.empty, Body = bodyReader\<rparr>)"

definition Header_Set :: "http_request \<Rightarrow> string \<Rightarrow> string \<Rightarrow> http_request" where
  "Header_Set req k v = req\<lparr>Header := (Header req)(k \<mapsto> v)\<rparr>"

section \<open>Client and request executor\<close>

text \<open>
  The client. \<open>httpClient\<close> is the transport seen from one call: \<^verbatim>\<open>httpClient.Do\<close>
  gives the text of a transport error or a response. (\<^verbatim>\<open>doRequest\<close> spells the key field
  \<^verbatim>\<open>ApiKey\<close>, \<^verbatim>\<open>Stream\<close> spells it \<^verbatim>\<open>APIKey\<close>.)
\<close>

record Client =
  APIKey :: string
  BaseURL :: string
  httpClient :: "http_request \<Rightarrow> string + http_response"

text \<open>
  What a call depends on beside its arguments, for a request type \<open>'req\<close>, a response type
  \<open>'resp\<close> and a chunk payload type \<open>'chunk\<close>:
  \<^item> \<open>Marshal\<close> is \<^verbatim>\<open>json.Marshal\<close> at the request type;
  \<^item> \<open>Unmarshal_APIError\<close> is \<^verbatim>\<open>json.Unmarshal\<close> into a fresh \<^verbatim>\<open>APIError\<close>
    (\<open>None\<close> when it returns an error);
  \<^item> \<open>Decode\<close> is \<^verbatim>\<open>json.NewDecoder(resp.Body).Decode\<close> at the response type;
  \<^item> \<open>Unmarshal_StreamChunk\<close> is \<^verbatim>\<open>json.Unmarshal\<close> into a fresh \<^verbatim>\<open>StreamChunk\<close>;
  \<^item> \<open>check_request\<close> is the validation done by \<^verbatim>\<open>http.NewRequestWithContext\<close>;
  \<^item> \<open>handleError\<close> is the function of that name, which is not among the sources.
\<close>

record ('req, 'resp, 'chunk) env =
  Marshal :: "'req \<Rightarrow> string + string"
  Unmarshal_APIError :: "string \<Rightarrow> APIError option"
  Decode :: "body \<Rightarrow> string + 'resp"
  Unmarshal_StreamChunk :: "string \<Rightarrow> string + 'chunk"
  check_request :: "string \<Rightarrow> string \<Rightarrow> string option"
  handleError :: "http_response \<Rightarrow> go_error"

text \<open>
  \<^verbatim>\<open>doRequest\<close>, lines 65 to 82: the request that is sent, or the error returned
  before anything is sent.
\<close>

definition doRequest_build ::
  "('req, 'resp, 'chunk) env \<Rightarrow> Client \<Rightarrow> string \<Rightarrow> string \<Rightarrow> 'req option
     \<Rightarrow> go_error + http_request" where
  "doRequest_build E c method path body =
     (let url = BaseURL c @ path in
      case (case body of
              None \<Rightarrow> Inr None
            | Some b \<Rightarrow>
                (case Marshal E b of
                   Inl err \<Rightarrow> Inl (Wrapf ''marshal request'' (LibErr err))
                 | Inr jsonData \<Rightarrow> Inr (Some jsonData))) of
        Inl e \<Rightarrow> Inl e
      | Inr bodyReader \<Rightarrow>
          (case NewRequestWithContext (check_request E) method url bodyReader of
             Inl err \<Rightarrow> Inl (Wrapf ''create request'' (LibErr err))
           | Inr req \<Rightarrow>
               Inr (Header_Set (Header_Set req ''Content-Type'' ''application/json'')
                      ''CENCORI_API_KEY'' (APIKey c))))"

text \<open>
  \<^verbatim>\<open>doRequest\<close>, lines 90 to 116, once the transport has answered: a status other
  than 200 gives an \<^verbatim>\<open>APIError\<close>, status 200 gives the decoded response or a decode
  error.
\<close>

definition doRequest_respond ::
  "('req, 'resp, 'chunk) env \<Rightarrow> http_response \<Rightarrow> go_error + 'resp" where
  "doRequest_respond E resp =
     (if resp_StatusCode resp \<noteq> StatusOK then
        (case ReadAll (resp_Body resp) of
           Inl err \<Rightarrow>
             Inl (APIErr \<lparr>StatusCode = resp_StatusCode resp, Code = ''READ_ERROR'',
                          Message = ''failed to read response body: '' @ err, Err = None\<rparr>)
         | Inr body \<Rightarrow>
             (case Unmarshal_APIError E body of
                None \<Rightarrow>
                  Inl (APIErr \<lparr>StatusCode = resp_StatusCode resp, Code = ''UNKNOWN'',
                               Message = body, Err = None\<rparr>)
              | Some apiErr \<Rightarrow> Inl (APIErr (apiErr\<lparr>StatusCode := resp_StatusCode resp\<rparr>))))
      else
        (case Decode E (resp_Body resp) of
           Inl err \<Rightarrow> Inl (Wrapf ''decode response'' (LibErr err))
         | Inr result \<Rightarrow> Inr result))"

text \<open>\<^verbatim>\<open>doRequest\<close>: build the request, call the transport (line 84), classify.\<close>

definition doRequest ::
  "('req, 'resp, 'chunk) env \<Rightarrow> Client \<Rightarrow> string \<Rightarrow> string \<Rightarrow> 'req option
     \<Rightarrow> go_error + 'resp" where
  "doRequest E c method path body =
     (case doRequest_build E c method path body of
        Inl e \<Rightarrow> Inl e
      | Inr req \<Rightarrow>
          (case httpClient c req of
             Inl err \<Rightarrow> Inl (Wrapf ''execute request'' (LibErr err))
           | Inr resp \<Rightarrow> doRequest_respond E resp))"

section \<open>Chat service\<close>

record Message =
  Role :: string
  Content :: string

text \<open>
  Modelled from the spec: the declaration of \<^verbatim>\<open>ChatParams\<close> is not among the sources.
  \<open>Model\<close>, \<open>Messages\<close> and \<open>Stream\<close> are fields the sources write; the fields that are
  not listed here are the extension of the record.
\<close>

record ChatParams =
  Model :: string
  Messages :: "Message list"
  Stream :: bool

record ChatService =
  client :: Client

text \<open>
  \<^verbatim>\<open>Create\<close>. The argument is a pointer: \<open>None\<close> is \<^verbatim>\<open>nil\<close>, whose dereference
  panics (the result \<open>None\<close>). Otherwise the result is the value the caller's pointer
  refers to after the call, and what the call returns.
\<close>

definition Create ::
  "('z ChatParams_scheme, 'resp, 'chunk) env \<Rightarrow> ChatService \<Rightarrow> 'z ChatParams_scheme option
     \<Rightarrow> ('z ChatParams_scheme \<times> (go_error + 'resp)) option" where
  "Create E s params =
     (case params of
        None \<Rightarrow> None
      | Some p \<Rightarrow>
          Some (p\<lparr>Stream := False\<rparr>,
                doRequest E (client s) ''POST'' ''/api/ai/chat'' (Some (p\<lparr>Stream := False\<rparr>))))"

subsection \<open>Stream decoder\<close>

text \<open>
  Modelled from the spec: the declaration of \<^verbatim>\<open>StreamChunk\<close> is not among the sources.
  A chunk is either a decoded payload, whose \<^verbatim>\<open>Err\<close> is \<^verbatim>\<open>nil\<close>, or a value that only
  has \<^verbatim>\<open>Err\<close> set.
\<close>

datatype 'chunk StreamChunk = Chunk 'chunk | ErrChunk go_error

text \<open>What the reader does on the channel: it sends chunks and closes it.\<close>

datatype 'chunk event = Send "'chunk StreamChunk" | Close

text \<open>
  One turn of the loop of the reader (lines 221 to 264). The result
  is the chunks sent in this turn and the body for the next turn, or no body when the
  goroutine returns. \<open>ctxErr\<close> tells whether \<^verbatim>\<open>ctx.Err()\<close> is not \<^verbatim>\<open>nil\<close>.
\<close>

definition turn ::
  "('req, 'resp, 'chunk) env \<Rightarrow> bool \<Rightarrow> body \<Rightarrow> 'chunk StreamChunk list \<times> body option" where
  \<open>turn E ctxErr b =
     (case ReadString b of
        (line, Some err, b') \<Rightarrow>
          if ctxErr then ([], None)
          else
            (case err of
               EOF \<Rightarrow> ([], None)
             | IOError m \<Rightarrow> ([ErrChunk (Wrapf ''stream read'' (LibErr m))], None))
      | (line, None, b') \<Rightarrow>
          (let line = TrimSpace line in
           if \<not> HasPrefix line ''data: '' then ([], Some b')
           else
             let data = TrimPrefix line ''data: '' in
             if data = ''[DONE]'' then ([], None)
             else
               (case (if Contains data ''"error":'' then Unmarshal_APIError E data else None) of
                  Some apiErr \<Rightarrow> ([ErrChunk (APIErr (fillSentinel apiErr))], None)
                | None \<Rightarrow>
                    (case Unmarshal_StreamChunk E data of
                       Inl err \<Rightarrow> ([ErrChunk (Wrapf ''unmarshal chunk'' (LibErr err))], None)
                     | Inr chunk \<Rightarrow> ([Chunk chunk], Some b')))))\<close>

text \<open>
  The loop: the chunks sent, in order, until the goroutine returns. Every send is taken
  to be received, and \<open>ctxErr\<close> is the value that \<^verbatim>\<open>ctx.Err()\<close> has when a read fails.
\<close>

function reader ::
  "('req, 'resp, 'chunk) env \<Rightarrow> bool \<Rightarrow> body \<Rightarrow> 'chunk StreamChunk list" where
  "reader E ctxErr b =
     (case turn E ctxErr b of
        (sent, None) \<Rightarrow> sent
      | (sent, Some b') \<Rightarrow> sent @ reader E ctxErr b')"
  by pat_completeness auto
termination
proof -
  have shorter: "length (dropWhile (\<lambda>c. c \<noteq> newline) xs) - Suc 0 < length xs"
    if "newline \<in> set xs" for xs :: string
  proof -
    from that have "dropWhile (\<lambda>c. c \<noteq> newline) xs \<noteq> []"
      by (auto simp: dropWhile_eq_Nil_conv)
    then have "length (dropWhile (\<lambda>c. c \<noteq> newline) xs) - Suc 0
        < length (dropWhile (\<lambda>c. c \<noteq> newline) xs)"
      by simp
    also have "\<dots> \<le> length xs"
      by (rule length_dropWhile_le)
    finally show ?thesis .
  qed
  show ?thesis
    by (relation "measure (\<lambda>(E, ctxErr, b). length (Data b))")
      (auto simp: turn_def ReadString_def shorter Let_def
        split: if_splits option.splits sum.splits io_error.splits)
qed

declare reader.simps [simp del]

text \<open>
  The goroutine started by \<^verbatim>\<open>Stream\<close>: the loop, then the deferred \<^verbatim>\<open>close(chunks)\<close>.
\<close>

definition stream_goroutine ::
  "('req, 'resp, 'chunk) env \<Rightarrow> bool \<Rightarrow> body \<Rightarrow> 'chunk event list" where
  "stream_goroutine E ctxErr b = map Send (reader E ctxErr b) @ [Close]"

text \<open>
  \<^verbatim>\<open>Stream\<close>. As for \<open>Create\<close>, the result holds the value behind the caller's pointer
  after the call; the channel is given by the events of the goroutine.
\<close>

definition ChatService_Stream ::
  "('z ChatParams_scheme, 'resp, 'chunk) env \<Rightarrow> ChatService \<Rightarrow> bool
     \<Rightarrow> 'z ChatParams_scheme option
     \<Rightarrow> ('z ChatParams_scheme \<times> (go_error + 'chunk event list)) option" where
  "ChatService_Stream E s ctxErr params =
     (case params of
        None \<Rightarrow> None
      | Some p \<Rightarrow>
          Some (p\<lparr>Stream := True\<rparr>,
            (case Marshal E (p\<lparr>Stream := True\<rparr>) of
               Inl err \<Rightarrow> Inl (Wrapf ''marshal request'' (LibErr err))
             | Inr jsonData \<Rightarrow>
                 (case NewRequestWithContext (check_request E) ''POST''
                         (BaseURL (client s) @ ''/api/ai/chat'') (Some jsonData) of
                    Inl err \<Rightarrow> Inl (Wrapf ''create request'' (LibErr err))
                  | Inr req \<Rightarrow>
                      (case httpClient (client s)
                              (Header_Set
                                 (Header_Set
                                    (Header_Set req ''Content-Type'' ''application/json'')
                                    ''CENCORI_API_KEY'' (APIKey (client s)))
                                 ''Accept'' ''text/event-stream'') of
                         Inl err \<Rightarrow> Inl (Wrapf ''execute request'' (LibErr err))
                       | Inr resp \<Rightarrow>
                           if resp_StatusCode resp \<noteq> StatusOK then Inl (handleError E resp)
                           else Inr (stream_goroutine E ctxErr (resp_Body resp)))))))"

section \<open>The reader and the cancellation watcher\<close>

text \<open>
  The two goroutines of \<^verbatim>\<open>Stream\<close> (lines 209 to 266) as a transition system. The state
  holds what they share: whether the context is cancelled, whether
  \<^verbatim>\<open>resp.Body.Close()\<close> was called, the bytes that have arrived and that \<^verbatim>\<open>ReadString\<close>
  has not consumed, the error with which the transport has ended the body (if it has), and
  the events on the channel.
\<close>

record 'chunk system =
  ctx_done :: bool
  body_closed :: bool
  watcher_done :: bool
  received :: string
  ended :: "io_error option"
  reader_done :: bool
  events :: "'chunk event list"

definition init :: "'chunk system" where
  "init =
     \<lparr>ctx_done = False, body_closed = False, watcher_done = False, received = [],
      ended = None, reader_done = False, events = []\<rparr>"

text \<open>
  The pending \<^verbatim>\<open>ReadString\<close> returns when a whole line has arrived, when the transport has
  ended the body, or when the body was closed; otherwise it blocks.
\<close>

definition read_returns :: "'chunk system \<Rightarrow> bool" where
  "read_returns s \<longleftrightarrow> newline \<in> set (received s) \<or> ended s \<noteq> None \<or> body_closed s"

text \<open>
  The body as the returning read sees it: a read on a closed body fails, whatever the
  transport had delivered.
\<close>

definition pending_body :: "'chunk system \<Rightarrow> body" where
  "pending_body s =
     \<lparr>Data = received s,
      End = (if body_closed s then IOError ''http: read on closed response body''
             else (case ended s of None \<Rightarrow> EOF | Some e \<Rightarrow> e))\<rparr>"

text \<open>
  What can happen: the caller cancels the context; bytes arrive; the transport ends the
  body with an error or EOF; the watcher, whose \<^verbatim>\<open><-ctx.Done()\<close> has returned, calls
  \<^verbatim>\<open>resp.Body.Close()\<close> (lines 213 to 216); the reader, whose read has returned, makes one
  turn of its loop.
\<close>

datatype action = Cancel | Arrive string | Finish io_error | Watch | ReaderTurn

fun enabled :: "action \<Rightarrow> 'chunk system \<Rightarrow> bool" where
  "enabled Cancel s = True"
| "enabled (Arrive bytes) s = (\<not> body_closed s \<and> ended s = None)"
| "enabled (Finish e) s = (\<not> body_closed s \<and> ended s = None)"
| "enabled Watch s = (ctx_done s \<and> \<not> watcher_done s)"
| "enabled ReaderTurn s = (\<not> reader_done s \<and> read_returns s)"

text \<open>
  The effect of each. When the reader returns, its deferred calls close the body and the
  channel (lines 210 and 211).
\<close>

fun perform :: "('req, 'resp, 'chunk) env \<Rightarrow> action \<Rightarrow> 'chunk system \<Rightarrow> 'chunk system" where
  "perform E Cancel s = s\<lparr>ctx_done := True\<rparr>"
| "perform E (Arrive bytes) s = s\<lparr>received := received s @ bytes\<rparr>"
| "perform E (Finish e) s = s\<lparr>ended := Some e\<rparr>"
| "perform E Watch s = s\<lparr>body_closed := True, watcher_done := True\<rparr>"
| "perform E ReaderTurn s =
     (case turn E (ctx_done s) (pending_body s) of
        (sent, Some b') \<Rightarrow> s\<lparr>received := Data b', events := events s @ map Send sent\<rparr>
      | (sent, None) \<Rightarrow>
          s\<lparr>reader_done := True, body_closed := True,
            events := events s @ map Send sent @ [Close]\<rparr>)"

text \<open>
  A schedule is a list of actions; it runs from a state as long as each action is enabled
  when its turn comes.
\<close>

fun run ::
  "('req, 'resp, 'chunk) env \<Rightarrow> action list \<Rightarrow> 'chunk system \<Rightarrow> 'chunk system option" where
  "run E [] s = Some s"
| "run E (a # as) s = (if enabled a s then run E as (perform E a s) else None)"

section \<open>A concrete environment\<close>

text \<open>
  The definitions above take the JSON decoders as arguments, and the theorems below hold
  for all of them. To run the functions on the exchanges of the tests, this section
  fixes an environment: \<^verbatim>\<open>encoding/json\<close> for the types involved, a response type that
  is any JSON value (as in \<^verbatim>\<open>doRequest[any, any]\<close> of the tests), and a chunk payload that
  lists \<^verbatim>\<open>Choices[i].Delta.Content\<close>.
\<close>

subsection \<open>JSON texts\<close>

text \<open>
  The values of JSON texts, by the grammar that the scanner of \<^verbatim>\<open>encoding/json\<close>
  accepts. A number keeps its literal. A string is unquoted as the decoder does it:
  escapes are replaced, two escaped surrogates that form a pair give one code point, and
  a lone surrogate or an ill-formed UTF-8 sequence gives U+FFFD. The decoder's limit on the
  depth of nesting is not modelled.
\<close>

datatype json =
    JNull
  | JBool bool
  | JNumber string
  | JString string
  | JArray "json list"
  | JObject "(string \<times> json) list"

text \<open>A byte from its number, and back.\<close>

definition byte :: "nat \<Rightarrow> char" where
  "byte n = Char (odd n) (odd (n div 2)) (odd (n div 4)) (odd (n div 8))
                 (odd (n div 16)) (odd (n div 32)) (odd (n div 64)) (odd (n div 128))"

definition ord :: "char \<Rightarrow> nat" where
  "ord c = of_char c"

definition isSpace :: "char \<Rightarrow> bool" where
  "isSpace c \<longleftrightarrow> c = CHR '' '' \<or> c = CHR 0x09 \<or> c = CHR 0x0D \<or> c = CHR 0x0A"

definition skip_ws :: "string \<Rightarrow> string" where
  "skip_ws = dropWhile isSpace"

definition is_digit :: "char \<Rightarrow> bool" where
  "is_digit c \<longleftrightarrow> c \<in> set ''0123456789''"

definition hex_value :: "char \<Rightarrow> nat option" where
  "hex_value = map_of (zip ''0123456789abcdefABCDEF'' ([0..<16] @ [10..<16]))"

text \<open>
  The code point of the escape at the head of the text: a backslash, \<^verbatim>\<open>u\<close> and four
  hexadecimal digits.
\<close>

fun getu4 :: "string \<Rightarrow> nat option" where
  "getu4 (b # u # a # c # d # e # r) =
     (if b = CHR 0x5C \<and> u = CHR ''u'' then
        (case (hex_value a, hex_value c, hex_value d, hex_value e) of
           (Some h3, Some h2, Some h1, Some h0) \<Rightarrow> Some (((h3 * 16 + h2) * 16 + h1) * 16 + h0)
         | _ \<Rightarrow> None)
      else None)"
| "getu4 _ = None"

text \<open>\<^verbatim>\<open>utf8.EncodeRune\<close> and \<^verbatim>\<open>utf16.DecodeRune\<close>.\<close>

definition EncodeRune :: "nat \<Rightarrow> string" where
  "EncodeRune r =
     (if r < 0x80 then [byte r]
      else if r < 0x800 then [byte (0xC0 + r div 64), byte (0x80 + r mod 64)]
      else if 0xD800 \<le> r \<and> r < 0xE000 \<or> 0x10FFFF < r then [CHR 0xEF, CHR 0xBF, CHR 0xBD]
      else if r < 0x10000 then
        [byte (0xE0 + r div 4096), byte (0x80 + r div 64 mod 64), byte (0x80 + r mod 64)]
      else
        [byte (0xF0 + r div 262144), byte (0x80 + r div 4096 mod 64),
         byte (0x80 + r div 64 mod 64), byte (0x80 + r mod 64)])"

definition IsSurrogate :: "nat \<Rightarrow> bool" where
  "IsSurrogate r \<longleftrightarrow> 0xD800 \<le> r \<and> r < 0xE000"

definition utf16_DecodeRune :: "nat \<Rightarrow> nat \<Rightarrow> nat" where
  "utf16_DecodeRune r1 r2 =
     (if 0xD800 \<le> r1 \<and> r1 < 0xDC00 \<and> 0xDC00 \<le> r2 \<and> r2 < 0xE000
      then (r1 - 0xD800) * 1024 + (r2 - 0xDC00) + 0x10000
      else 0xFFFD)"

text \<open>
  The length of the well-formed UTF-8 sequence at the head of the text, and 0 when there
  is none.
\<close>

definition cont :: "char \<Rightarrow> bool" where
  "cont c \<longleftrightarrow> 0x80 \<le> ord c \<and> ord c \<le> 0xBF"

fun rune_len :: "string \<Rightarrow> nat" where
  "rune_len [] = 0"
| "rune_len (c # cs) =
     (let b0 = ord c; b1 = (case cs of [] \<Rightarrow> 0 | d # _ \<Rightarrow> ord d) in
      if b0 < 0x80 then 1
      else if 0xC2 \<le> b0 \<and> b0 \<le> 0xDF then
        (if list_all cont (take 1 cs) \<and> 1 \<le> length cs then 2 else 0)
      else if 0xE0 \<le> b0 \<and> b0 \<le> 0xEF then
        (if list_all cont (take 2 cs) \<and> 2 \<le> length cs
            \<and> (b0 = 0xE0 \<longrightarrow> 0xA0 \<le> b1) \<and> (b0 = 0xED \<longrightarrow> b1 \<le> 0x9F) then 3 else 0)
      else if 0xF0 \<le> b0 \<and> b0 \<le> 0xF4 then
        (if list_all cont (take 3 cs) \<and> 3 \<le> length cs
            \<and> (b0 = 0xF0 \<longrightarrow> 0x90 \<le> b1) \<and> (b0 = 0xF4 \<longrightarrow> b1 \<le> 0x8F) then 4 else 0)
      else 0)"

text \<open>
  The rest of a string literal after its opening quote: the unquoted string and the text
  that follows the closing quote.
\<close>

definition simple_escape :: "char \<Rightarrow> char option" where
  "simple_escape = map_of
     [(CHR 0x22, CHR 0x22), (CHR 0x5C, CHR 0x5C), (CHR ''/'', CHR ''/''),
      (CHR ''b'', CHR 0x08), (CHR ''f'', CHR 0x0C), (CHR ''n'', CHR 0x0A),
      (CHR ''r'', CHR 0x0D), (CHR ''t'', CHR 0x09)]"

definition cons_result :: "string \<Rightarrow> (string \<times> string) option \<Rightarrow> (string \<times> string) option" where
  "cons_result p = map_option (\<lambda>(s, r). (p @ s, r))"

function parse_string :: "string \<Rightarrow> (string \<times> string) option" where
  "parse_string [] = None"
| "parse_string (c # cs) =
     (if c = CHR 0x22 then Some ([], cs)
      else if c = CHR 0x5C then
        (case cs of
           [] \<Rightarrow> None
         | e # r \<Rightarrow>
             if e = CHR ''u'' then
               (case getu4 (c # cs) of
                  None \<Rightarrow> None
                | Some rr \<Rightarrow>
                    if IsSurrogate rr then
                      (case getu4 (drop 4 r) of
                         None \<Rightarrow> cons_result (EncodeRune 0xFFFD) (parse_string (drop 4 r))
                       | Some rr1 \<Rightarrow>
                           if utf16_DecodeRune rr rr1 \<noteq> 0xFFFD
                           then cons_result (EncodeRune (utf16_DecodeRune rr rr1))
                                  (parse_string (drop 10 r))
                           else cons_result (EncodeRune 0xFFFD) (parse_string (drop 4 r)))
                    else cons_result (EncodeRune rr) (parse_string (drop 4 r)))
             else
               (case simple_escape e of
                  None \<Rightarrow> None
                | Some ch \<Rightarrow> cons_result [ch] (parse_string r)))
      else if ord c < 0x20 then None
      else if ord c < 0x80 then cons_result [c] (parse_string cs)
      else if rune_len (c # cs) = 0 then cons_result (EncodeRune 0xFFFD) (parse_string cs)
      else cons_result (take (rune_len (c # cs)) (c # cs))
             (parse_string (drop (rune_len (c # cs)) (c # cs))))"
  by pat_completeness auto
termination
  by (relation "measure length") (auto split: if_splits)

declare parse_string.simps [simp del]


text \<open>The literal of a number, by the grammar of the scanner.\<close>

definition scan_digits :: "string \<Rightarrow> (string \<times> string) option" where
  "scan_digits s =
     (if takeWhile is_digit s = [] then None
      else Some (takeWhile is_digit s, dropWhile is_digit s))"

definition scan_int :: "string \<Rightarrow> (string \<times> string) option" where
  "scan_int s =
     (case s of
        [] \<Rightarrow> None
      | c # cs \<Rightarrow> if c = CHR ''0'' then Some ([c], cs) else scan_digits s)"

definition scan_frac :: "string \<Rightarrow> (string \<times> string) option" where
  "scan_frac s =
     (case s of
        [] \<Rightarrow> Some ([], s)
      | c # cs \<Rightarrow>
          if c = CHR ''.'' then cons_result [c] (scan_digits cs) else Some ([], s))"

definition scan_exp :: "string \<Rightarrow> (string \<times> string) option" where
  "scan_exp s =
     (case s of
        [] \<Rightarrow> Some ([], s)
      | c # cs \<Rightarrow>
          if c = CHR ''e'' \<or> c = CHR ''E'' then
            (case cs of
               [] \<Rightarrow> None
             | d # ds \<Rightarrow>
                 if d = CHR ''+'' \<or> d = CHR ''-'' then cons_result [c, d] (scan_digits ds)
                 else cons_result [c] (scan_digits cs))
          else Some ([], s))"

definition scan_number :: "string \<Rightarrow> (string \<times> string) option" where
  "scan_number s =
     (case (case s of
              [] \<Rightarrow> None
            | c # cs \<Rightarrow> if c = CHR ''-'' then cons_result [c] (scan_int cs) else scan_int s) of
        None \<Rightarrow> None
      | Some (i, r) \<Rightarrow>
          (case scan_frac r of
             None \<Rightarrow> None
           | Some (f, r') \<Rightarrow> cons_result (i @ f) (scan_exp r')))"

definition scan_literal :: "string \<Rightarrow> (json \<times> string) option" where
  "scan_literal s =
     (if prefix ''true'' s then Some (JBool True, drop 4 s)
      else if prefix ''false'' s then Some (JBool False, drop 5 s)
      else if prefix ''null'' s then Some (JNull, drop 4 s)
      else None)"

text \<open>
  Values, array elements and object members. The first argument bounds the depth of the
  calls; every call but the first follows a byte of the text, so the bound that
  \<open>parse_json\<close> passes, the length of the text and one more, is not reached.
\<close>

fun parse_value :: "nat \<Rightarrow> string \<Rightarrow> (json \<times> string) option"
  and parse_elements :: "nat \<Rightarrow> string \<Rightarrow> (json list \<times> string) option"
  and parse_members :: "nat \<Rightarrow> string \<Rightarrow> ((string \<times> json) list \<times> string) option"
where
  "parse_value 0 s = None"
| "parse_value (Suc n) s =
     (case skip_ws s of
        [] \<Rightarrow> None
      | c # cs \<Rightarrow>
          if c = CHR ''{'' then
            (case skip_ws cs of
               [] \<Rightarrow> None
             | d # ds \<Rightarrow>
                 if d = CHR ''}'' then Some (JObject [], ds)
                 else map_option (\<lambda>(ms, r). (JObject ms, r)) (parse_members n cs))
          else if c = CHR ''['' then
            (case skip_ws cs of
               [] \<Rightarrow> None
             | d # ds \<Rightarrow>
                 if d = CHR '']'' then Some (JArray [], ds)
                 else map_option (\<lambda>(vs, r). (JArray vs, r)) (parse_elements n cs))
          else if c = CHR 0x22 then map_option (\<lambda>(x, r). (JString x, r)) (parse_string cs)
          else if c = CHR ''-'' \<or> is_digit c
            then map_option (\<lambda>(x, r). (JNumber x, r)) (scan_number (c # cs))
          else scan_literal (c # cs))"
| "parse_elements 0 s = None"
| "parse_elements (Suc n) s =
     (case parse_value n s of
        None \<Rightarrow> None
      | Some (v, r) \<Rightarrow>
          (case skip_ws r of
             [] \<Rightarrow> None
           | d # ds \<Rightarrow>
               if d = CHR '','' then map_option (\<lambda>(vs, r'). (v # vs, r')) (parse_elements n ds)
               else if d = CHR '']'' then Some ([v], ds)
               else None))"
| "parse_members 0 s = None"
| "parse_members (Suc n) s =
     (case skip_ws s of
        [] \<Rightarrow> None
      | q # cs \<Rightarrow>
          if q \<noteq> CHR 0x22 then None
          else
            (case parse_string cs of
               None \<Rightarrow> None
             | Some (k, r) \<Rightarrow>
                 (case skip_ws r of
                    [] \<Rightarrow> None
                  | cl # r1 \<Rightarrow>
                      if cl \<noteq> CHR '':'' then None
                      else
                        (case parse_value n r1 of
                           None \<Rightarrow> None
                         | Some (v, r2) \<Rightarrow>
                             (case skip_ws r2 of
                                [] \<Rightarrow> None
                              | d # ds \<Rightarrow>
                                  if d = CHR '','' then
                                    map_option (\<lambda>(ms, r'). ((k, v) # ms, r')) (parse_members n ds)
                                  else if d = CHR ''}'' then Some ([(k, v)], ds)
                                  else None)))))"

text \<open>A whole text: one value, with white space around it and nothing else.\<close>

definition parse_json :: "string \<Rightarrow> json option" where
  "parse_json s =
     (case parse_value (Suc (length s)) s of
        None \<Rightarrow> None
      | Some (v, r) \<Rightarrow> if skip_ws r = [] then Some v else None)"

subsection \<open>Decoding into Go values\<close>

text \<open>
  \<^verbatim>\<open>json.Unmarshal\<close> into a struct: the text must be a JSON object or \<^verbatim>\<open>null\<close>; each
  member whose key matches a field, ignoring case, is decoded into that field, in the order
  of the text; other members are skipped; \<^verbatim>\<open>null\<close> leaves a field as it is; a value of
  the wrong type makes the call return an error. Keys are compared after folding
  (\<open>foldName\<close>): letters in upper case, and the two code points that fold to
  \<^verbatim>\<open>S\<close> and \<^verbatim>\<open>K\<close>.
\<close>

definition upper :: "char \<Rightarrow> char" where
  "upper c = (if 0x61 \<le> ord c \<and> ord c \<le> 0x7A then byte (ord c - 32) else c)"

function foldName :: "string \<Rightarrow> string" where
  "foldName [] = []"
| "foldName (c # cs) =
     (if prefix [CHR 0xC5, CHR 0xBF] (c # cs) then CHR ''S'' # foldName (drop 1 cs)
      else if prefix [CHR 0xE2, CHR 0x84, CHR 0xAA] (c # cs) then CHR ''K'' # foldName (drop 2 cs)
      else upper c # foldName cs)"
  by pat_completeness auto
termination
  by (relation "measure length") auto

fun foldM :: "('a \<Rightarrow> 'b \<Rightarrow> 'b option) \<Rightarrow> 'a list \<Rightarrow> 'b \<Rightarrow> 'b option" where
  "foldM f [] b = Some b"
| "foldM f (x # xs) b = (case f x b of None \<Rightarrow> None | Some b' \<Rightarrow> foldM f xs b')"

definition into_string :: "json \<Rightarrow> string \<Rightarrow> string option" where
  "into_string v cur = (case v of JString s \<Rightarrow> Some s | JNull \<Rightarrow> Some cur | _ \<Rightarrow> None)"

definition into_struct ::
  "(string \<Rightarrow> json \<Rightarrow> 'a \<Rightarrow> 'a option) \<Rightarrow> json \<Rightarrow> 'a \<Rightarrow> 'a option" where
  "into_struct field v cur =
     (case v of
        JObject ms \<Rightarrow> foldM (\<lambda>(k, x). field (foldName k) x) ms cur
      | JNull \<Rightarrow> Some cur
      | _ \<Rightarrow> None)"

text \<open>
  Modelled from the spec: the JSON names of the fields of \<^verbatim>\<open>APIError\<close>, whose
  declaration is not among the sources. The spec gives the shape of an error body as
  \<^verbatim>\<open>{error: string, code: string}\<close> and the tests send it: \<^verbatim>\<open>code\<close> is \<open>Code\<close> and
  \<^verbatim>\<open>error\<close> is \<open>Message\<close>. \<open>StatusCode\<close> and \<open>Err\<close> are not read from the body.
\<close>

definition field_APIError :: "string \<Rightarrow> json \<Rightarrow> APIError \<Rightarrow> APIError option" where
  "field_APIError k v e =
     (if k = ''CODE'' then map_option (\<lambda>s. e\<lparr>Code := s\<rparr>) (into_string v (Code e))
      else if k = ''ERROR'' then map_option (\<lambda>s. e\<lparr>Message := s\<rparr>) (into_string v (Message e))
      else Some e)"

definition json_Unmarshal_APIError :: "string \<Rightarrow> APIError option" where
  "json_Unmarshal_APIError data =
     (case parse_json data of
        None \<Rightarrow> None
      | Some v \<Rightarrow>
          into_struct field_APIError v \<lparr>StatusCode = 0, Code = [], Message = [], Err = None\<rparr>)"

text \<open>
  Modelled from the spec: the declaration of \<^verbatim>\<open>StreamChunk\<close> is not among the sources.
  This is the part of a chunk that the tests read, \<^verbatim>\<open>Choices[i].Delta.Content\<close>, under
  the names of the frames they send; the payload of a chunk is the list of these
  contents.
\<close>

definition field_Delta :: "string \<Rightarrow> json \<Rightarrow> string \<Rightarrow> string option" where
  "field_Delta k v content = (if k = ''CONTENT'' then into_string v content else Some content)"

definition field_Choice :: "string \<Rightarrow> json \<Rightarrow> string \<Rightarrow> string option" where
  "field_Choice k v content =
     (if k = ''DELTA'' then into_struct field_Delta v content else Some content)"

definition field_StreamChunk :: "string \<Rightarrow> json \<Rightarrow> string list \<Rightarrow> string list option" where
  "field_StreamChunk k v choices =
     (if k = ''CHOICES'' then
        (case v of
           JArray vs \<Rightarrow> those (map (\<lambda>x. into_struct field_Choice x []) vs)
         | JNull \<Rightarrow> Some []
         | _ \<Rightarrow> None)
      else Some choices)"

definition json_Unmarshal_StreamChunk :: "string \<Rightarrow> string + string list" where
  "json_Unmarshal_StreamChunk data =
     (case parse_json data of
        None \<Rightarrow> Inl ''invalid JSON''
      | Some v \<Rightarrow>
          (case into_struct field_StreamChunk v [] of
             None \<Rightarrow> Inl ''json: cannot unmarshal into Go value of type cencori.StreamChunk''
           | Some c \<Rightarrow> Inr c))"

subsection \<open>The environment of the tests\<close>

text \<open>
  \<^verbatim>\<open>Decode\<close> into \<^verbatim>\<open>any\<close>: the first JSON value of the body; what follows it is not
  read.
\<close>

definition json_Decode :: "body \<Rightarrow> string + json" where
  "json_Decode b =
     (case parse_value (Suc (length (Data b))) (Data b) of
        None \<Rightarrow> Inl ''json: no value could be decoded''
      | Some (v, r) \<Rightarrow> Inr v)"

text \<open>
  Modelled from the spec: the JSON text of a \<^verbatim>\<open>ChatParams\<close>, whose declaration and field
  tags are not among the sources, with the field names of the API's wire format. Quotes
  and backslashes are escaped; other bytes are copied.
\<close>

definition quote :: "string \<Rightarrow> string" where
  "quote s =
     CHR 0x22 # concat (map (\<lambda>c. if c = CHR 0x22 \<or> c = CHR 0x5C then [CHR 0x5C, c] else [c]) s)
       @ [CHR 0x22]"

fun join :: "string \<Rightarrow> string list \<Rightarrow> string" where
  "join sep [] = []"
| "join sep [x] = x"
| "join sep (x # y # ys) = x @ sep @ join sep (y # ys)"

definition marshal_Message :: "Message \<Rightarrow> string" where
  \<open>marshal_Message m =
     ''{"role":'' @ quote (Role m) @ '',"content":'' @ quote (Content m) @ ''}''\<close>

definition marshal_ChatParams :: "'z ChatParams_scheme \<Rightarrow> string + string" where
  \<open>marshal_ChatParams p =
     Inr (''{"model":'' @ quote (Model p)
          @ '',"messages":['' @ join '','' (map marshal_Message (Messages p)) @ '']''
          @ '',"stream":'' @ (if Stream p then ''true'' else ''false'') @ ''}'')\<close>

text \<open>
  Modelled from the spec: \<^verbatim>\<open>handleError\<close> is called by \<^verbatim>\<open>Stream\<close> and tested by
  \<^verbatim>\<open>TestHandleError\<close>, but its body is not among the sources. It classifies a failed
  response as the spec's executor does: \<^verbatim>\<open>READ_ERROR\<close> when the body cannot be read,
  \<^verbatim>\<open>UNKNOWN\<close> with the raw text when it is not JSON of the error shape; otherwise the
  decoded error, with the real status code and the sentinel of its code.
\<close>

definition handleError_spec :: "(string \<Rightarrow> APIError option) \<Rightarrow> http_response \<Rightarrow> go_error" where
  "handleError_spec unmarshal resp =
     (case ReadAll (resp_Body resp) of
        Inl err \<Rightarrow>
          APIErr \<lparr>StatusCode = resp_StatusCode resp, Code = ''READ_ERROR'',
                  Message = ''failed to read response body: '' @ err, Err = None\<rparr>
      | Inr body \<Rightarrow>
          (case unmarshal body of
             None \<Rightarrow>
               APIErr \<lparr>StatusCode = resp_StatusCode resp, Code = ''UNKNOWN'',
                       Message = body, Err = None\<rparr>
           | Some apiErr \<Rightarrow>
               APIErr (fillSentinel (apiErr\<lparr>StatusCode := resp_StatusCode resp\<rparr>))))"

definition go_env :: "('z ChatParams_scheme, json, string list) env" where
  "go_env =
     \<lparr>Marshal = marshal_ChatParams,
      Unmarshal_APIError = json_Unmarshal_APIError,
      Decode = json_Decode,
      Unmarshal_StreamChunk = json_Unmarshal_StreamChunk,
      check_request = (\<lambda>method url. None),
      handleError = handleError_spec json_Unmarshal_APIError\<rparr>"

text \<open>
  A client whose transport answers every request with the given status and body, as the
  test servers do.
\<close>

definition test_client :: "int \<Rightarrow> string \<Rightarrow> Client" where
  "test_client status text =
     \<lparr>APIKey = ''test-key'', BaseURL = ''http://127.0.0.1:8080'',
      httpClient = (\<lambda>req. Inr \<lparr>resp_StatusCode = status,
                                 resp_Body = \<lparr>Data = text, End = EOF\<rparr>\<rparr>)\<rparr>"

text \<open>A client whose transport answers with status 200 and the body of the request.\<close>

definition echo_client :: Client where
  "echo_client =
     \<lparr>APIKey = ''test-key'', BaseURL = ''http://127.0.0.1:8080'',
      httpClient = (\<lambda>req. Inr \<lparr>resp_StatusCode = 200,
                                 resp_Body = \<lparr>Data = (case Body req of None \<Rightarrow> [] | Some d \<Rightarrow> d),
                                              End = EOF\<rparr>\<rparr>)\<rparr>"

text \<open>An event stream: each line followed by a newline.\<close>

definition lines_text :: "string list \<Rightarrow> string" where
  "lines_text ls = concat (map (\<lambda>l. l @ [newline]) ls)"

section \<open>Vocabulary of the properties\<close>

text \<open>
  The payload of a data line: what follows the prefix \<^verbatim>\<open>data: \<close> once the line is
  trimmed. A line without the prefix is not a data line.
\<close>

definition data_of :: "string \<Rightarrow> string option" where
  "data_of line =
     (if HasPrefix (TrimSpace line) ''data: ''
      then Some (TrimPrefix (TrimSpace line) ''data: '')
      else None)"

text \<open>
  Modelled from the spec: a payload ``contains an \<^verbatim>\<open>"error"\<close> key'' when it is a JSON
  object with a member of that name (the structural check that the spec asks for).
\<close>

definition has_error_key :: "string \<Rightarrow> bool" where
  "has_error_key payload =
     (case parse_json payload of
        Some (JObject members) \<Rightarrow> ''error'' \<in> fst ` set members
      | _ \<Rightarrow> False)"

text \<open>The chunks that a list of lines decodes to, in order: one for each data line.\<close>

definition chunks_of :: "('req, 'resp, 'chunk) env \<Rightarrow> string list \<Rightarrow> 'chunk StreamChunk list" where
  "chunks_of E ls =
     concat (map (\<lambda>l. case data_of (l @ [newline]) of
                         None \<Rightarrow> []
                       | Some p \<Rightarrow>
                           (case Unmarshal_StreamChunk E p of
                              Inl err \<Rightarrow> []
                            | Inr c \<Rightarrow> [Chunk c])) ls)"

text \<open>
  What holds in every state the two goroutines reach: while the reader runs, the body is
  closed only after the context was cancelled; and once the watcher has run, the context
  is cancelled and the body is closed.
\<close>

definition cancel_invariant :: "'chunk system \<Rightarrow> bool" where
  "cancel_invariant s \<longleftrightarrow>
     (body_closed s \<and> \<not> reader_done s \<longrightarrow> ctx_done s)
     \<and> (watcher_done s \<longrightarrow> ctx_done s \<and> body_closed s)"

section \<open>Verified properties\<close>

subsection \<open>Error model\<close>

lemma sentinelMap_codes:
  "sentinelMap c = None \<longleftrightarrow>
     c \<notin> {''INVALID_API_KEY'', ''RATE_LIMIT_EXCEEDED'', ''INSUFFICIENT_CREDITS'',
           ''TIER_RESTRICTED'', ''INVALID_MODEL'', ''PROVIDER_ERROR'', ''CONTENT_FILTERED''}"
  by (simp add: sentinelMap_def sentinelTable_def)

text \<open>
  Claim C8. \<^verbatim>\<open>fillSentinel\<close> is idempotent: applying it twice gives the same error
  value, hence the same wrapped error, as applying it once. For a code that is not in the
  sentinel table it changes nothing, so an unset wrapped error stays unset.
\<close>

theorem fillSentinel_idempotent:
  "fillSentinel (fillSentinel e) = fillSentinel e
   \<and> Err (fillSentinel (fillSentinel e)) = Err (fillSentinel e)
   \<and> (sentinelMap (Code e) = None \<longrightarrow> fillSentinel e = e)
   \<and> (sentinelMap (Code e) = None \<and> Err e = None \<longrightarrow> Err (fillSentinel e) = None)"
  by (simp add: fillSentinel_def split: option.splits)

text \<open>An unlisted code: the error is left as it was.\<close>

theorem fillSentinel_idempotent_witness:
  "sentinelMap ''TEAPOT'' = None
   \<and> fillSentinel \<lparr>StatusCode = 418, Code = ''TEAPOT'', Message = ''short and stout'', Err = None\<rparr>
       = \<lparr>StatusCode = 418, Code = ''TEAPOT'', Message = ''short and stout'', Err = None\<rparr>"
  using fillSentinel_idempotent
    [of "\<lparr>StatusCode = 418, Code = ''TEAPOT'', Message = ''short and stout'', Err = None\<rparr>"]
  by (simp add: sentinelMap_codes)

text \<open>The seven codes of \<^verbatim>\<open>TestAPIError_fillSentinel\<close>, each matched by its sentinel.\<close>

lemma fillSentinel_table:
  "list_all (\<lambda>(code, s).
      errors_Is (APIErr (fillSentinel \<lparr>StatusCode = 0, Code = code, Message = [], Err = None\<rparr>))
        (Sentinel s))
    sentinelTable"
  by (simp add: sentinelTable_def fillSentinel_def sentinelMap_def Unwrap_def)

text \<open>
  Claim C9. The formatting operation renders
  \<^verbatim>\<open><namespace>: <message> (code: <code>, status: <status_code>)\<close> when the code is
  non-empty and \<^verbatim>\<open><namespace>: <message> (status: <status_code>)\<close> when it is empty.
\<close>

theorem Error_format:
  "(Code e \<noteq> [] \<longrightarrow>
      Error e = namespace @ '': '' @ Message e @ '' (code: '' @ Code e @ '', status: ''
                  @ itoa (StatusCode e) @ '')'')
   \<and> (Code e = [] \<longrightarrow>
      Error e = namespace @ '': '' @ Message e @ '' (status: '' @ itoa (StatusCode e) @ '')'')"
  by (simp add: Error_def)

text \<open>The two expected strings of \<^verbatim>\<open>TestAPIError_Error\<close>.\<close>

theorem Error_format_witness:
  "Error \<lparr>StatusCode = 401, Code = ''INVALID_API_KEY'', Message = ''Invalid API key'', Err = None\<rparr>
     = ''cencori: Invalid API key (code: INVALID_API_KEY, status: 401)''
   \<and> Error \<lparr>StatusCode = 500, Code = [], Message = ''Server error'', Err = None\<rparr>
     = ''cencori: Server error (status: 500)''"
  using
    Error_format
      [of "\<lparr>StatusCode = 401, Code = ''INVALID_API_KEY'', Message = ''Invalid API key'', Err = None\<rparr>"]
    Error_format [of "\<lparr>StatusCode = 500, Code = [], Message = ''Server error'', Err = None\<rparr>"]
  by (simp add: namespace_def itoa_def decimal.simps digit_def)

subsection \<open>Evaluation\<close>

text \<open>The equations that compute the library functions and the test clients.\<close>

lemmas go_eval =
  parse_json_def skip_ws_def isSpace_def parse_string.simps scan_literal_def
  scan_number_def scan_exp_def scan_frac_def scan_int_def scan_digits_def is_digit_def
  cons_result_def ord_def simple_escape_def json_Unmarshal_APIError_def into_struct_def
  into_string_def field_APIError_def upper_def byte_def json_Unmarshal_StreamChunk_def
  field_StreamChunk_def field_Choice_def field_Delta_def TrimSpace_def TrimLeft.simps
  leading_space_def space_runes_def HasPrefix_def TrimPrefix_def json_Decode_def

lemmas http_eval =
  doRequest_def doRequest_build_def doRequest_respond_def NewRequestWithContext_def
  Header_Set_def ReadAll_def StatusOK_def go_env_def test_client_def echo_client_def

lemmas stream_eval =
  data_of_def go_eval go_env_def lines_text_def newline_def fillSentinel_def sentinelMap_def
  sentinelTable_def

subsection \<open>Request executor\<close>

text \<open>
  Claim C7. Every \<^verbatim>\<open>APIError\<close> that \<^verbatim>\<open>doRequest\<close> produces for a response that is not
  a success has \<open>StatusCode\<close> equal to the real HTTP status code of the response: whether
  or not the body decoded, and whatever status the decoded value carried. (Such a response
  always gives an \<^verbatim>\<open>APIError\<close>; the decoder is any function.)
\<close>

theorem doRequest_status_code:
  assumes "doRequest_build E c method path body = Inr req"
    and "httpClient c req = Inr resp"
    and "resp_StatusCode resp \<noteq> StatusOK"
  shows "(\<exists>e. doRequest E c method path body = Inl (APIErr e))
    \<and> (\<forall>e. doRequest E c method path body = Inl (APIErr e)
          \<longrightarrow> StatusCode e = resp_StatusCode resp)"
  using assms
  by (auto simp: doRequest_def doRequest_respond_def split: sum.splits option.splits)

text \<open>
  A decoder that forges status 200 for every body, on the response of
  \<^verbatim>\<open>TestChat_503Error\<close>: the error carries 503.
\<close>

theorem doRequest_status_code_witness:
  "doRequest
     ((go_env :: (ChatParams, json, string list) env)
        \<lparr>Unmarshal_APIError :=
           \<lambda>text. Some \<lparr>StatusCode = 200, Code = ''OK'', Message = text, Err = None\<rparr>\<rparr>)
     (test_client 503 ''Service Unavailable'') ''POST'' ''/api/ai/chat'' None
   = Inl (APIErr \<lparr>StatusCode = 503, Code = ''OK'', Message = ''Service Unavailable'',
                   Err = None\<rparr>)"
  using doRequest_status_code
    [of "(go_env :: (ChatParams, json, string list) env)
           \<lparr>Unmarshal_APIError :=
              \<lambda>text. Some \<lparr>StatusCode = 200, Code = ''OK'', Message = text, Err = None\<rparr>\<rparr>"
        "test_client 503 ''Service Unavailable''" "''POST''" "''/api/ai/chat''" None
        "\<lparr>Method = ''POST'', URL = ''http://127.0.0.1:8080/api/ai/chat'',
          Header = [''Content-Type'' \<mapsto> ''application/json'',
                    ''CENCORI_API_KEY'' \<mapsto> ''test-key''],
          Body = None\<rparr>"
        "\<lparr>resp_StatusCode = 503, resp_Body = \<lparr>Data = ''Service Unavailable'', End = EOF\<rparr>\<rparr>"]
  by (simp add: http_eval)

text \<open>
  Claim C6. For a response that is not a success and whose body cannot be decoded into
  the \<^verbatim>\<open>APIError\<close> shape, \<^verbatim>\<open>doRequest\<close> returns an \<^verbatim>\<open>APIError\<close> with code
  \<^verbatim>\<open>UNKNOWN\<close>, the raw body text as message and the real HTTP status code.
\<close>

theorem doRequest_unknown:
  assumes "doRequest_build E c method path body = Inr req"
    and "httpClient c req = Inr resp"
    and "resp_StatusCode resp \<noteq> StatusOK"
    and "ReadAll (resp_Body resp) = Inr text"
    and "Unmarshal_APIError E text = None"
  shows "doRequest E c method path body
    = Inl (APIErr \<lparr>StatusCode = resp_StatusCode resp, Code = ''UNKNOWN'', Message = text,
                    Err = None\<rparr>)"
  using assms by (simp add: doRequest_def doRequest_respond_def)

lemma not_a_json: "json_Unmarshal_APIError ''not a json'' = None"
  by (simp add: go_eval)

text \<open>The response of \<^verbatim>\<open>TestErrorDecoding_InvalidJSON\<close>.\<close>

theorem doRequest_unknown_witness:
  \<open>doRequest (go_env :: (ChatParams, json, string list) env) (test_client 400 ''not a json'')
     ''POST'' ''/api/ai/chat'' (Some \<lparr>Model = [], Messages = [], Stream = False\<rparr>)
   = Inl (APIErr \<lparr>StatusCode = 400, Code = ''UNKNOWN'', Message = ''not a json'', Err = None\<rparr>)\<close>
  using doRequest_unknown
    [of "go_env :: (ChatParams, json, string list) env" "test_client 400 ''not a json''"
        "''POST''" "''/api/ai/chat''" "Some \<lparr>Model = [], Messages = [], Stream = False\<rparr>"
        \<open>\<lparr>Method = ''POST'', URL = ''http://127.0.0.1:8080/api/ai/chat'',
          Header = [''Content-Type'' \<mapsto> ''application/json'',
                    ''CENCORI_API_KEY'' \<mapsto> ''test-key''],
          Body = Some ''{"model":"","messages":[],"stream":false}''\<rparr>\<close>
        "\<lparr>resp_StatusCode = 400, resp_Body = \<lparr>Data = ''not a json'', End = EOF\<rparr>\<rparr>"
        "''not a json''"]
    not_a_json
  by (simp add: http_eval marshal_ChatParams_def quote_def)

lemma decode_id:
  \<open>json_Decode \<lparr>Data = ''{"id":"test-id"}'' @ [newline], End = EOF\<rparr>
     = Inr (JObject [(''id'', JString ''test-id'')])\<close>
  by (simp add: go_eval newline_def)

lemma unmarshal_id:
  \<open>json_Unmarshal_APIError (''{"id":"test-id"}'' @ [newline])
     = Some \<lparr>StatusCode = 0, Code = [], Message = [], Err = None\<rparr>\<close>
  by (simp add: go_eval newline_def)

text \<open>
  Claim C2, as stated, fails: status 201 is a success status and the body decodes into
  the expected response type, yet \<^verbatim>\<open>doRequest\<close> returns an \<^verbatim>\<open>APIError\<close>.
\<close>

theorem doRequest_201_counterexample:
  \<open>(200::int) \<le> 201 \<and> (201::int) < 300
   \<and> json_Decode \<lparr>Data = ''{"id":"test-id"}'' @ [newline], End = EOF\<rparr>
       = Inr (JObject [(''id'', JString ''test-id'')])
   \<and> doRequest (go_env :: (ChatParams, json, string list) env)
       (test_client 201 (''{"id":"test-id"}'' @ [newline])) ''GET'' ''/test'' None
       = Inl (APIErr \<lparr>StatusCode = 201, Code = [], Message = [], Err = None\<rparr>)\<close>
  using decode_id unmarshal_id by (simp add: http_eval)

text \<open>
  Claim C2, amended. For every response with status code 200, \<^verbatim>\<open>doRequest\<close> decodes the
  body into the caller's expected response type and returns it; it does not produce an
  \<^verbatim>\<open>APIError\<close>, and a decode failure is reported as the local error
  \<^verbatim>\<open>decode response: ...\<close>. A response with any other status code, the other 2xx codes
  included, takes the failure path: the call returns an \<^verbatim>\<open>APIError\<close>.
\<close>

theorem doRequest_status_200:
  assumes "doRequest_build E c method path body = Inr req"
    and "httpClient c req = Inr resp"
  shows "(resp_StatusCode resp = StatusOK \<longrightarrow>
        doRequest E c method path body
          = (case Decode E (resp_Body resp) of
               Inl err \<Rightarrow> Inl (Wrapf ''decode response'' (LibErr err))
             | Inr result \<Rightarrow> Inr result)
        \<and> (\<forall>e. doRequest E c method path body \<noteq> Inl (APIErr e)))
    \<and> (resp_StatusCode resp \<noteq> StatusOK \<longrightarrow>
        (\<exists>e. doRequest E c method path body = Inl (APIErr e)))"
  using assms
  by (auto simp: doRequest_def doRequest_respond_def split: sum.splits option.splits)

text \<open>The response of \<^verbatim>\<open>TestDoRequest_Sucess\<close>.\<close>

theorem doRequest_status_200_witness:
  \<open>doRequest (go_env :: (ChatParams, json, string list) env)
     (test_client 200 (''{"id":"test-id"}'' @ [newline])) ''GET'' ''/test'' None
   = Inr (JObject [(''id'', JString ''test-id'')])\<close>
  using doRequest_status_200
    [of "go_env :: (ChatParams, json, string list) env"
        \<open>test_client 200 (''{"id":"test-id"}'' @ [newline])\<close>
        "''GET''" "''/test''" None
        "\<lparr>Method = ''GET'', URL = ''http://127.0.0.1:8080/test'',
          Header = [''Content-Type'' \<mapsto> ''application/json'',
                    ''CENCORI_API_KEY'' \<mapsto> ''test-key''],
          Body = None\<rparr>"
        \<open>\<lparr>resp_StatusCode = 200,
          resp_Body = \<lparr>Data = ''{"id":"test-id"}'' @ [newline], End = EOF\<rparr>\<rparr>\<close>]
    decode_id
  by (simp add: http_eval)

text \<open>
  For a decoded body, the error that \<^verbatim>\<open>doRequest\<close> returns is the decoded value with
  its status code replaced and nothing else: the sentinel table is not consulted.
\<close>

lemma doRequest_decoded:
  assumes "doRequest_build E c method path body = Inr req"
    and "httpClient c req = Inr resp"
    and "resp_StatusCode resp \<noteq> StatusOK"
    and "ReadAll (resp_Body resp) = Inr text"
    and "Unmarshal_APIError E text = Some apiErr"
  shows "doRequest E c method path body
    = Inl (APIErr (apiErr\<lparr>StatusCode := resp_StatusCode resp\<rparr>))"
  using assms by (simp add: doRequest_def doRequest_respond_def)

lemma unmarshal_401:
  \<open>json_Unmarshal_APIError
     (''{"code":"INVALID_API_KEY","error":"Invalid API key"}'' @ [newline])
   = Some \<lparr>StatusCode = 0, Code = ''INVALID_API_KEY'', Message = ''Invalid API key'',
           Err = None\<rparr>\<close>
  by (simp add: go_eval newline_def)

text \<open>
  Claim C1 says that for a failed response whose machine code is in the sentinel table,
  the error returned by \<^verbatim>\<open>doRequest\<close> wraps the sentinel, so that \<^verbatim>\<open>errors.Is\<close>
  succeeds. The code at the response of \<^verbatim>\<open>TestDoRequest_401MapsToTypedError\<close>: the code
  \<^verbatim>\<open>INVALID_API_KEY\<close> is in the table, the error is returned with nothing wrapped, and
  \<^verbatim>\<open>errors.Is(err, ErrInvalidApiKey)\<close> is false.
\<close>

theorem doRequest_401_sentinel_missing:
  \<open>doRequest (go_env :: (ChatParams, json, string list) env)
     (test_client 401 (''{"code":"INVALID_API_KEY","error":"Invalid API key"}'' @ [newline]))
     ''GET'' ''/test'' None
     = Inl (APIErr \<lparr>StatusCode = 401, Code = ''INVALID_API_KEY'',
                     Message = ''Invalid API key'', Err = None\<rparr>)
   \<and> sentinelMap ''INVALID_API_KEY'' = Some ErrInvalidApiKey
   \<and> \<not> errors_Is
         (APIErr \<lparr>StatusCode = 401, Code = ''INVALID_API_KEY'',
                   Message = ''Invalid API key'', Err = None\<rparr>)
         (Sentinel ErrInvalidApiKey)\<close>
  using unmarshal_401 by (simp add: http_eval Unwrap_def sentinelMap_def sentinelTable_def)

subsection \<open>Chat service\<close>

lemma Stream_update_changes: "(p\<lparr>Stream := v\<rparr> \<noteq> p) = (Stream p \<noteq> v)"
  by (cases p) auto

text \<open>
  Claim C10. \<^verbatim>\<open>Create\<close> and \<^verbatim>\<open>Stream\<close> mutate the caller's \<^verbatim>\<open>ChatParams\<close>: after the
  call its \<open>Stream\<close> field is false (\<^verbatim>\<open>Create\<close>) or true (\<^verbatim>\<open>Stream\<close>) and every other
  field is unchanged, so the value differs from the one passed in exactly when the field
  disagreed. The overwrite comes before sending: what is sent is the updated value, and
  the call does what it would do had the caller set the field that way.
\<close>

theorem Create_Stream_mutate_params:
  "Create E s (Some p)
     = Some (p\<lparr>Stream := False\<rparr>,
             doRequest E (client s) ''POST'' ''/api/ai/chat'' (Some (p\<lparr>Stream := False\<rparr>)))
   \<and> (\<exists>r. ChatService_Stream E s ctxErr (Some p) = Some (p\<lparr>Stream := True\<rparr>, r))
   \<and> Create E s (Some p) = Create E s (Some (p\<lparr>Stream := False\<rparr>))
   \<and> ChatService_Stream E s ctxErr (Some p)
       = ChatService_Stream E s ctxErr (Some (p\<lparr>Stream := True\<rparr>))
   \<and> Model (p\<lparr>Stream := v\<rparr>) = Model p
   \<and> Messages (p\<lparr>Stream := v\<rparr>) = Messages p
   \<and> ChatParams.more (p\<lparr>Stream := v\<rparr>) = ChatParams.more p
   \<and> ((p\<lparr>Stream := False\<rparr> \<noteq> p) = Stream p)
   \<and> ((p\<lparr>Stream := True\<rparr> \<noteq> p) = (\<not> Stream p))"
  by (simp add: Create_def ChatService_Stream_def Stream_update_changes)

lemma echo_false:
  \<open>json_Decode
     \<lparr>Data = ''{"model":"gpt-4o","messages":[{"role":"user","content":"Hi"}],"stream":false}'',
      End = EOF\<rparr>
   = Inr (JObject [(''model'', JString ''gpt-4o''),
                   (''messages'', JArray [JObject [(''role'', JString ''user''),
                                                   (''content'', JString ''Hi'')]]),
                   (''stream'', JBool False)])\<close>
  by (simp add: go_eval)

text \<open>
  A caller passes \<open>Stream = True\<close> to \<^verbatim>\<open>Create\<close>; the server answers with the body it
  received. The caller's value then has \<open>Stream = False\<close>, and so had the body.
\<close>

theorem Create_Stream_mutate_params_witness:
  \<open>Create go_env \<lparr>client = echo_client\<rparr>
     (Some \<lparr>Model = ''gpt-4o'', Messages = [\<lparr>Role = ''user'', Content = ''Hi''\<rparr>],
            Stream = True\<rparr>)
   = Some (\<lparr>Model = ''gpt-4o'', Messages = [\<lparr>Role = ''user'', Content = ''Hi''\<rparr>],
            Stream = False\<rparr>,
           Inr (JObject [(''model'', JString ''gpt-4o''),
                         (''messages'', JArray [JObject [(''role'', JString ''user''),
                                                         (''content'', JString ''Hi'')]]),
                         (''stream'', JBool False)]))\<close>
  using Create_Stream_mutate_params
    [of "go_env :: (ChatParams, json, string list) env" "\<lparr>client = echo_client\<rparr>"
        "\<lparr>Model = ''gpt-4o'', Messages = [\<lparr>Role = ''user'', Content = ''Hi''\<rparr>],
          Stream = True\<rparr>"
        False False]
    echo_false
  by (simp add: http_eval marshal_ChatParams_def marshal_Message_def quote_def)

subsection \<open>Stream decoder: one turn of the loop\<close>

lemma ReadString_line:
  assumes "newline \<notin> set l"
  shows "ReadString \<lparr>Data = l @ newline # rest, End = e\<rparr>
    = (l @ [newline], None, \<lparr>Data = rest, End = e\<rparr>)"
proof -
  from assms have "takeWhile (\<lambda>c. c \<noteq> newline) (l @ newline # rest) = l"
    by (induction l) auto
  moreover from assms
  have "dropWhile (\<lambda>c. c \<noteq> newline) (l @ newline # rest) = newline # rest"
    by (induction l) auto
  ultimately show ?thesis
    by (simp add: ReadString_def)
qed

lemma ReadString_end:
  assumes "newline \<notin> set (Data b)"
  shows "ReadString b = (Data b, Some (End b), b\<lparr>Data := []\<rparr>)"
  using assms by (simp add: ReadString_def)

lemma turn_line:
  assumes "newline \<notin> set l"
  shows \<open>turn E ctxErr \<lparr>Data = l @ newline # rest, End = e\<rparr> =
     (case data_of (l @ [newline]) of
        None \<Rightarrow> ([], Some \<lparr>Data = rest, End = e\<rparr>)
      | Some data \<Rightarrow>
          if data = ''[DONE]'' then ([], None)
          else
            (case (if Contains data ''"error":'' then Unmarshal_APIError E data else None) of
               Some apiErr \<Rightarrow> ([ErrChunk (APIErr (fillSentinel apiErr))], None)
             | None \<Rightarrow>
                 (case Unmarshal_StreamChunk E data of
                    Inl err \<Rightarrow> ([ErrChunk (Wrapf ''unmarshal chunk'' (LibErr err))], None)
                  | Inr chunk \<Rightarrow> ([Chunk chunk], Some \<lparr>Data = rest, End = e\<rparr>))))\<close>
  by (simp add: turn_def ReadString_line [OF assms] data_of_def Let_def)

lemma turn_end:
  assumes "newline \<notin> set (Data b)"
  shows "turn E ctxErr b =
     (if ctxErr then ([], None)
      else (case End b of
              EOF \<Rightarrow> ([], None)
            | IOError m \<Rightarrow> ([ErrChunk (Wrapf ''stream read'' (LibErr m))], None)))"
  by (simp add: turn_def ReadString_end [OF assms])

lemma reader_unfold:
  "reader E ctxErr b =
     (case turn E ctxErr b of
        (sent, None) \<Rightarrow> sent
      | (sent, Some b') \<Rightarrow> sent @ reader E ctxErr b')"
  by (rule reader.simps)

lemma reader_step_line:
  assumes "newline \<notin> set l"
  shows \<open>reader E ctxErr \<lparr>Data = l @ newline # rest, End = e\<rparr> =
     (case data_of (l @ [newline]) of
        None \<Rightarrow> reader E ctxErr \<lparr>Data = rest, End = e\<rparr>
      | Some data \<Rightarrow>
          if data = ''[DONE]'' then []
          else
            (case (if Contains data ''"error":'' then Unmarshal_APIError E data else None) of
               Some apiErr \<Rightarrow> [ErrChunk (APIErr (fillSentinel apiErr))]
             | None \<Rightarrow>
                 (case Unmarshal_StreamChunk E data of
                    Inl err \<Rightarrow> [ErrChunk (Wrapf ''unmarshal chunk'' (LibErr err))]
                  | Inr chunk \<Rightarrow> Chunk chunk # reader E ctxErr \<lparr>Data = rest, End = e\<rparr>)))\<close>
  by (subst reader_unfold)
    (simp add: turn_line [OF assms] split: option.splits sum.splits)

lemma reader_step_end:
  assumes "newline \<notin> set (Data b)"
  shows "reader E ctxErr b =
     (if ctxErr then []
      else (case End b of
              EOF \<Rightarrow> []
            | IOError m \<Rightarrow> [ErrChunk (Wrapf ''stream read'' (LibErr m))]))"
  by (subst reader_unfold) (simp add: turn_end [OF assms] split: io_error.splits)

subsection \<open>Stream decoder: error frames\<close>

lemma boom:
  \<open>data_of (''data: {"error": {"message": "boom"}}'' @ [newline])
     = Some ''{"error": {"message": "boom"}}''
   \<and> Contains ''{"error": {"message": "boom"}}'' ''"error":''
   \<and> has_error_key ''{"error": {"message": "boom"}}''
   \<and> json_Unmarshal_APIError ''{"error": {"message": "boom"}}'' = None
   \<and> json_Unmarshal_StreamChunk ''{"error": {"message": "boom"}}'' = Inr []\<close>
  by (simp add: stream_eval has_error_key_def)

lemma late:
  \<open>data_of (''data: {"choices": [{"delta": {"content": "late"}}]}'' @ [newline])
     = Some ''{"choices": [{"delta": {"content": "late"}}]}''
   \<and> \<not> Contains ''{"choices": [{"delta": {"content": "late"}}]}'' ''"error":''
   \<and> json_Unmarshal_StreamChunk ''{"choices": [{"delta": {"content": "late"}}]}''
     = Inr [''late'']\<close>
  by (simp add: stream_eval)

lemma spaced_error:
  \<open>data_of (''data: {"error" : "something went wrong", "code" : "PROVIDER_ERROR"}''
             @ [newline])
     = Some ''{"error" : "something went wrong", "code" : "PROVIDER_ERROR"}''
   \<and> \<not> Contains ''{"error" : "something went wrong", "code" : "PROVIDER_ERROR"}'' ''"error":''
   \<and> has_error_key ''{"error" : "something went wrong", "code" : "PROVIDER_ERROR"}''
   \<and> json_Unmarshal_APIError ''{"error" : "something went wrong", "code" : "PROVIDER_ERROR"}''
     = Some \<lparr>StatusCode = 0, Code = ''PROVIDER_ERROR'', Message = ''something went wrong'',
             Err = None\<rparr>
   \<and> json_Unmarshal_StreamChunk
       ''{"error" : "something went wrong", "code" : "PROVIDER_ERROR"}''
     = Inr []\<close>
  by (simp add: stream_eval has_error_key_def)

text \<open>
  Claim C3 says that a data line whose payload contains an \<^verbatim>\<open>"error"\<close> key is an error
  frame: it is decoded into an \<^verbatim>\<open>APIError\<close>, classified, sent as the final chunk, and
  nothing after it is read. The code at the error frame of
  \<^verbatim>\<open>TestChat_Stream_MidErrorFrame\<close> written with a space before each colon, followed by
  a content frame: the payload is a JSON object with an \<^verbatim>\<open>"error"\<close> key and decodes into
  an \<^verbatim>\<open>APIError\<close> with the code \<^verbatim>\<open>PROVIDER_ERROR\<close>, but it does not contain the byte
  sequence that line 249 looks for. The error is sent as an ordinary chunk without
  content, no error chunk is sent, and the reader goes on to read and send the frame that
  follows.
\<close>

theorem error_frame_missed:
  \<open>has_error_key ''{"error" : "something went wrong", "code" : "PROVIDER_ERROR"}''
   \<and> json_Unmarshal_APIError ''{"error" : "something went wrong", "code" : "PROVIDER_ERROR"}''
       = Some \<lparr>StatusCode = 0, Code = ''PROVIDER_ERROR'', Message = ''something went wrong'',
               Err = None\<rparr>
   \<and> stream_goroutine (go_env :: (ChatParams, json, string list) env) False
       \<lparr>Data = ''data: {"error" : "something went wrong", "code" : "PROVIDER_ERROR"}''
           @ newline
           # ''data: {"choices": [{"delta": {"content": "late"}}]}'' @ newline # [],
        End = EOF\<rparr>
     = [Send (Chunk []), Send (Chunk [''late'']), Close]\<close>
proof -
  have nl1: \<open>newline
      \<notin> set ''data: {"error" : "something went wrong", "code" : "PROVIDER_ERROR"}''\<close>
    and nl2: \<open>newline \<notin> set ''data: {"choices": [{"delta": {"content": "late"}}]}''\<close>
    by (simp_all add: newline_def)
  have "reader (go_env :: (ChatParams, json, string list) env) False \<lparr>Data = [], End = EOF\<rparr>
      = []"
    by (simp add: reader_step_end)
  then have \<open>reader (go_env :: (ChatParams, json, string list) env) False
      \<lparr>Data = ''data: {"choices": [{"delta": {"content": "late"}}]}'' @ newline # [],
       End = EOF\<rparr>
      = [Chunk [''late'']]\<close>
    using late
      reader_step_line
        [OF nl2, of "go_env :: (ChatParams, json, string list) env" False "[]" EOF]
    by (simp add: go_env_def)
  then have \<open>reader (go_env :: (ChatParams, json, string list) env) False
      \<lparr>Data = ''data: {"error" : "something went wrong", "code" : "PROVIDER_ERROR"}''
          @ newline
          # ''data: {"choices": [{"delta": {"content": "late"}}]}'' @ newline # [],
       End = EOF\<rparr>
      = [Chunk [], Chunk [''late'']]\<close>
    using spaced_error
      reader_step_line
        [OF nl1, of "go_env :: (ChatParams, json, string list) env" False
          \<open>''data: {"choices": [{"delta": {"content": "late"}}]}'' @ newline # []\<close> EOF]
    by (simp add: go_env_def)
  then show ?thesis
    using spaced_error by (simp add: stream_goroutine_def)
qed

text \<open>
  The same happens to a payload that has the byte sequence but whose \<^verbatim>\<open>"error"\<close> member
  is an object and not a string: \<^verbatim>\<open>json.Unmarshal\<close> into \<^verbatim>\<open>APIError\<close> fails, and the
  loop falls through to the chunk decoder (lines 251 to 259).
\<close>

lemma error_object_sent_as_chunk:
  \<open>has_error_key ''{"error": {"message": "boom"}}''
   \<and> stream_goroutine (go_env :: (ChatParams, json, string list) env) False
       \<lparr>Data = ''data: {"error": {"message": "boom"}}'' @ newline
           # ''data: {"choices": [{"delta": {"content": "late"}}]}'' @ newline # [],
        End = EOF\<rparr>
     = [Send (Chunk []), Send (Chunk [''late'']), Close]\<close>
proof -
  have nl1: \<open>newline \<notin> set ''data: {"error": {"message": "boom"}}''\<close>
    and nl2: \<open>newline \<notin> set ''data: {"choices": [{"delta": {"content": "late"}}]}''\<close>
    by (simp_all add: newline_def)
  have "reader (go_env :: (ChatParams, json, string list) env) False \<lparr>Data = [], End = EOF\<rparr>
      = []"
    by (simp add: reader_step_end)
  then have \<open>reader (go_env :: (ChatParams, json, string list) env) False
      \<lparr>Data = ''data: {"choices": [{"delta": {"content": "late"}}]}'' @ newline # [],
       End = EOF\<rparr>
      = [Chunk [''late'']]\<close>
    using late
      reader_step_line
        [OF nl2, of "go_env :: (ChatParams, json, string list) env" False "[]" EOF]
    by (simp add: go_env_def)
  then have \<open>reader (go_env :: (ChatParams, json, string list) env) False
      \<lparr>Data = ''data: {"error": {"message": "boom"}}'' @ newline
          # ''data: {"choices": [{"delta": {"content": "late"}}]}'' @ newline # [],
       End = EOF\<rparr>
      = [Chunk [], Chunk [''late'']]\<close>
    using boom
      reader_step_line
        [OF nl1, of "go_env :: (ChatParams, json, string list) env" False
          \<open>''data: {"choices": [{"delta": {"content": "late"}}]}'' @ newline # []\<close> EOF]
    by (simp add: go_env_def)
  then show ?thesis
    using boom by (simp add: stream_goroutine_def)
qed

text \<open>
  What lines 249 to 256 do, for every decoder. A data line whose payload contains the
  byte sequence and decodes into an \<^verbatim>\<open>APIError\<close> takes the error path: the decoded
  error, after \<^verbatim>\<open>fillSentinel\<close>, is sent as the only chunk of the turn, the goroutine
  returns, and nothing that follows the line is read. No other line takes it: if a turn
  sends a chunk that holds an \<^verbatim>\<open>APIError\<close>, the line read was a data line whose payload
  contains the byte sequence and decodes to that error.
\<close>

lemma error_path:
  \<open>(newline \<notin> set l \<and> data_of (l @ [newline]) = Some data \<and> data \<noteq> ''[DONE]''
      \<and> Contains data ''"error":'' \<and> Unmarshal_APIError E data = Some apiErr
    \<longrightarrow> turn E ctxErr \<lparr>Data = l @ newline # rest, End = e\<rparr>
          = ([ErrChunk (APIErr (fillSentinel apiErr))], None)
        \<and> stream_goroutine E ctxErr \<lparr>Data = l @ newline # rest, End = e\<rparr>
          = [Send (ErrChunk (APIErr (fillSentinel apiErr))), Close])
   \<and> (turn E ctxErr b = (sent, continue) \<and> ErrChunk (APIErr a) \<in> set sent
    \<longrightarrow> (\<exists>line b' data apiErr.
           ReadString b = (line, None, b') \<and> data_of line = Some data
           \<and> Contains data ''"error":'' \<and> Unmarshal_APIError E data = Some apiErr
           \<and> a = fillSentinel apiErr \<and> sent = [ErrChunk (APIErr a)] \<and> continue = None))\<close>
proof (intro conjI impI)
  assume a: \<open>newline \<notin> set l \<and> data_of (l @ [newline]) = Some data \<and> data \<noteq> ''[DONE]''
      \<and> Contains data ''"error":'' \<and> Unmarshal_APIError E data = Some apiErr\<close>
  then show t: "turn E ctxErr \<lparr>Data = l @ newline # rest, End = e\<rparr>
      = ([ErrChunk (APIErr (fillSentinel apiErr))], None)"
    by (simp add: turn_line)
  show "stream_goroutine E ctxErr \<lparr>Data = l @ newline # rest, End = e\<rparr>
      = [Send (ErrChunk (APIErr (fillSentinel apiErr))), Close]"
    by (simp add: stream_goroutine_def
        reader_unfold [of _ _ "\<lparr>Data = l @ newline # rest, End = e\<rparr>"] t)
next
  assume "turn E ctxErr b = (sent, continue) \<and> ErrChunk (APIErr a) \<in> set sent"
  then show \<open>\<exists>line b' data apiErr.
           ReadString b = (line, None, b') \<and> data_of line = Some data
           \<and> Contains data ''"error":'' \<and> Unmarshal_APIError E data = Some apiErr
           \<and> a = fillSentinel apiErr \<and> sent = [ErrChunk (APIErr a)] \<and> continue = None\<close>
    by (auto simp: turn_def data_of_def Let_def
        split: prod.splits option.splits if_splits io_error.splits sum.splits)
qed

lemma provider_error:
  \<open>data_of (''data: {"error": "something went wrong", "code": "PROVIDER_ERROR"}'' @ [newline])
     = Some ''{"error": "something went wrong", "code": "PROVIDER_ERROR"}''
   \<and> Contains ''{"error": "something went wrong", "code": "PROVIDER_ERROR"}'' ''"error":''
   \<and> json_Unmarshal_APIError ''{"error": "something went wrong", "code": "PROVIDER_ERROR"}''
     = Some \<lparr>StatusCode = 0, Code = ''PROVIDER_ERROR'', Message = ''something went wrong'',
             Err = None\<rparr>\<close>
  by (simp add: stream_eval)

text \<open>
  The error frame of \<^verbatim>\<open>TestChat_Stream_MidErrorFrame\<close>, followed by a frame that is not
  read: one chunk, which wraps \<^verbatim>\<open>ErrProvider\<close>, then the channel is closed.
\<close>

lemma mid_error_frame:
  \<open>stream_goroutine (go_env :: (ChatParams, json, string list) env) False
     \<lparr>Data = ''data: {"error": "something went wrong", "code": "PROVIDER_ERROR"}''
         @ newline # newline
         # ''data: {"choices": [{"delta": {"content": "late"}}]}'' @ [newline],
      End = EOF\<rparr>
   = [Send (ErrChunk (APIErr \<lparr>StatusCode = 0, Code = ''PROVIDER_ERROR'',
                              Message = ''something went wrong'',
                              Err = Some (Sentinel ErrProvider)\<rparr>)),
      Close]\<close>
  using error_path
    [of \<open>''data: {"error": "something went wrong", "code": "PROVIDER_ERROR"}''\<close>
        \<open>''{"error": "something went wrong", "code": "PROVIDER_ERROR"}''\<close>
        "go_env :: (ChatParams, json, string list) env"
        "\<lparr>StatusCode = 0, Code = ''PROVIDER_ERROR'', Message = ''something went wrong'',
          Err = None\<rparr>"
        False
        \<open>newline # ''data: {"choices": [{"delta": {"content": "late"}}]}'' @ [newline]\<close>
        EOF]
    provider_error
  by (simp add: go_env_def newline_def fillSentinel_def sentinelMap_def sentinelTable_def)

subsection \<open>Stream decoder: round trip\<close>

lemma reader_lines:
  assumes \<open>\<forall>l\<in>set ls. newline \<notin> set l
     \<and> (\<forall>p. data_of (l @ [newline]) = Some p
          \<longrightarrow> p \<noteq> ''[DONE]''
              \<and> (Contains p ''"error":'' \<longrightarrow> Unmarshal_APIError E p = None)
              \<and> (\<exists>c. Unmarshal_StreamChunk E p = Inr c))\<close>
  shows "reader E ctxErr \<lparr>Data = lines_text ls @ rest, End = e\<rparr>
    = chunks_of E ls @ reader E ctxErr \<lparr>Data = rest, End = e\<rparr>"
  using assms
proof (induction ls)
  case Nil
  then show ?case
    by (simp add: lines_text_def chunks_of_def)
next
  case (Cons l ls)
  then have nl: "newline \<notin> set l"
    by simp
  have wire: "lines_text (l # ls) @ rest = l @ newline # (lines_text ls @ rest)"
    by (simp add: lines_text_def)
  have IH: "reader E ctxErr \<lparr>Data = lines_text ls @ rest, End = e\<rparr>
      = chunks_of E ls @ reader E ctxErr \<lparr>Data = rest, End = e\<rparr>"
    using Cons by simp
  show ?case
  proof (cases "data_of (l @ [newline])")
    case None
    then have "turn E ctxErr \<lparr>Data = lines_text (l # ls) @ rest, End = e\<rparr>
        = ([], Some \<lparr>Data = lines_text ls @ rest, End = e\<rparr>)"
      by (simp add: wire turn_line [OF nl])
    then have "reader E ctxErr \<lparr>Data = lines_text (l # ls) @ rest, End = e\<rparr>
        = reader E ctxErr \<lparr>Data = lines_text ls @ rest, End = e\<rparr>"
      by (subst reader_unfold) simp
    moreover have "chunks_of E (l # ls) = chunks_of E ls"
      using None by (simp add: chunks_of_def)
    ultimately show ?thesis
      using IH by simp
  next
    case (Some p)
    with Cons.prems obtain c where p: \<open>p \<noteq> ''[DONE]''\<close>
      \<open>Contains p ''"error":'' \<longrightarrow> Unmarshal_APIError E p = None\<close>
      "Unmarshal_StreamChunk E p = Inr c"
      by auto
    then have "turn E ctxErr \<lparr>Data = lines_text (l # ls) @ rest, End = e\<rparr>
        = ([Chunk c], Some \<lparr>Data = lines_text ls @ rest, End = e\<rparr>)"
      using Some by (simp add: wire turn_line [OF nl])
    then have "reader E ctxErr \<lparr>Data = lines_text (l # ls) @ rest, End = e\<rparr>
        = Chunk c # reader E ctxErr \<lparr>Data = lines_text ls @ rest, End = e\<rparr>"
      by (subst reader_unfold) simp
    moreover have "chunks_of E (l # ls) = Chunk c # chunks_of E ls"
      using Some p by (simp add: chunks_of_def)
    ultimately show ?thesis
      using IH by simp
  qed
qed

lemma reader_done_line:
  assumes "newline \<notin> set d" and "data_of (d @ [newline]) = Some ''[DONE]''"
  shows "reader E ctxErr \<lparr>Data = d @ newline # rest, End = e\<rparr> = []"
  by (subst reader_unfold) (simp add: turn_line [OF assms(1)] assms(2))

lemma length_chunks_of:
  assumes \<open>\<forall>l\<in>set ls. \<forall>p. data_of (l @ [newline]) = Some p
     \<longrightarrow> (\<exists>c. Unmarshal_StreamChunk E p = Inr c)\<close>
  shows "length (chunks_of E ls) = length (filter (\<lambda>l. data_of (l @ [newline]) \<noteq> None) ls)"
  using assms by (induction ls) (auto simp: chunks_of_def split: option.splits)

lemma chunks_of_content: "c \<in> set (chunks_of E ls) \<Longrightarrow> \<exists>x. c = Chunk x"
  by (auto simp: chunks_of_def split: option.splits sum.splits)

lemma hello:
  \<open>data_of (''data: {"choices": [{"delta": {"content": "Hello"}}]}'' @ [newline])
     = Some ''{"choices": [{"delta": {"content": "Hello"}}]}''
   \<and> \<not> Contains ''{"choices": [{"delta": {"content": "Hello"}}]}'' ''"error":''
   \<and> json_Unmarshal_StreamChunk ''{"choices": [{"delta": {"content": "Hello"}}]}''
     = Inr [''Hello'']\<close>
  by (simp add: stream_eval)

lemma bang:
  \<open>data_of (''data: {"choices": [{"delta": {"content": "!"}}]}'' @ [newline])
     = Some ''{"choices": [{"delta": {"content": "!"}}]}''
   \<and> \<not> Contains ''{"choices": [{"delta": {"content": "!"}}]}'' ''"error":''
   \<and> json_Unmarshal_StreamChunk ''{"choices": [{"delta": {"content": "!"}}]}'' = Inr [''!'']\<close>
  by (simp add: stream_eval)

lemma other_lines:
  \<open>data_of ([] @ [newline]) = None \<and> data_of ('': keep-alive'' @ [newline]) = None
   \<and> data_of (''data: [DONE]'' @ [newline]) = Some ''[DONE]''\<close>
  by (simp add: stream_eval)

lemma last_error:
  \<open>data_of (''data: {"choices":[{"delta":{"content":"Hi"}}],"last'' @ CHR 0x5C
             # ''"error":null}'' @ [newline])
     = Some (''{"choices":[{"delta":{"content":"Hi"}}],"last'' @ CHR 0x5C # ''"error":null}'')
   \<and> Contains (''{"choices":[{"delta":{"content":"Hi"}}],"last'' @ CHR 0x5C
                # ''"error":null}'') ''"error":''
   \<and> \<not> has_error_key (''{"choices":[{"delta":{"content":"Hi"}}],"last'' @ CHR 0x5C
                # ''"error":null}'')
   \<and> json_Unmarshal_APIError (''{"choices":[{"delta":{"content":"Hi"}}],"last'' @ CHR 0x5C
                # ''"error":null}'')
     = Some \<lparr>StatusCode = 0, Code = [], Message = [], Err = None\<rparr>
   \<and> json_Unmarshal_StreamChunk (''{"choices":[{"delta":{"content":"Hi"}}],"last''
                @ CHR 0x5C # ''"error":null}'')
     = Inr [''Hi'']\<close>
  by (simp add: stream_eval has_error_key_def)

text \<open>
  Claim C4 says that N content frames followed by \<^verbatim>\<open>[DONE]\<close> give exactly N chunks, in
  order, then the closed channel, and no error chunk. The code at two content frames
  followed by \<^verbatim>\<open>[DONE]\<close>: both decode into chunks, with the contents \<^verbatim>\<open>Hi\<close> and
  \<^verbatim>\<open>late\<close>, and neither has an \<^verbatim>\<open>"error"\<close> key. The first has an extra member named
  \<^verbatim>\<open>last"error\<close>, whose JSON text ends in the byte sequence that line 249 looks for, so
  the frame is taken for an error frame: the channel carries one chunk, an \<^verbatim>\<open>APIError\<close>
  with no code and no message, and neither content.
\<close>

theorem stream_round_trip_false_positive:
  \<open>json_Unmarshal_StreamChunk (''{"choices":[{"delta":{"content":"Hi"}}],"last''
                @ CHR 0x5C # ''"error":null}'')
     = Inr [''Hi'']
   \<and> \<not> has_error_key (''{"choices":[{"delta":{"content":"Hi"}}],"last'' @ CHR 0x5C
                # ''"error":null}'')
   \<and> json_Unmarshal_StreamChunk ''{"choices": [{"delta": {"content": "late"}}]}''
     = Inr [''late'']
   \<and> stream_goroutine (go_env :: (ChatParams, json, string list) env) False
       \<lparr>Data = (''data: {"choices":[{"delta":{"content":"Hi"}}],"last'' @ CHR 0x5C
                   # ''"error":null}'') @ newline
           # ''data: {"choices": [{"delta": {"content": "late"}}]}'' @ newline
           # ''data: [DONE]'' @ newline # [],
        End = EOF\<rparr>
     = [Send (ErrChunk (APIErr \<lparr>StatusCode = 0, Code = [], Message = [], Err = None\<rparr>)),
        Close]\<close>
proof -
  have nl: \<open>newline \<notin> set (''data: {"choices":[{"delta":{"content":"Hi"}}],"last''
                   @ CHR 0x5C # ''"error":null}'')\<close>
    by (simp add: newline_def)
  have \<open>reader (go_env :: (ChatParams, json, string list) env) False
       \<lparr>Data = (''data: {"choices":[{"delta":{"content":"Hi"}}],"last'' @ CHR 0x5C
                   # ''"error":null}'') @ newline
           # ''data: {"choices": [{"delta": {"content": "late"}}]}'' @ newline
           # ''data: [DONE]'' @ newline # [],
        End = EOF\<rparr>
     = [ErrChunk (APIErr \<lparr>StatusCode = 0, Code = [], Message = [], Err = None\<rparr>)]\<close>
    using last_error
      reader_step_line
        [OF nl, of "go_env :: (ChatParams, json, string list) env" False
          \<open>''data: {"choices": [{"delta": {"content": "late"}}]}'' @ newline
             # ''data: [DONE]'' @ newline # []\<close> EOF]
    by (simp add: go_env_def fillSentinel_def sentinelMap_def sentinelTable_def)
  then show ?thesis
    using last_error late by (simp add: stream_goroutine_def)
qed

text \<open>
  Where the round trip does hold, for every decoder: a stream of lines, each ended by a
  newline, in which every data line has a payload that is not \<^verbatim>\<open>[DONE]\<close>, decodes into a
  chunk and is not taken for an error frame by lines 249 to 256, followed by the
  \<^verbatim>\<open>[DONE]\<close> line. The reader sends exactly the chunks of the data lines, in the order of
  the lines, then closes the channel. It sends nothing for \<^verbatim>\<open>[DONE]\<close>, for the lines that
  are not data lines or for what follows \<^verbatim>\<open>[DONE]\<close>, and no chunk sent is an error.
\<close>

lemma round_trip:
  assumes \<open>\<forall>l\<in>set ls. newline \<notin> set l
     \<and> (\<forall>p. data_of (l @ [newline]) = Some p
          \<longrightarrow> p \<noteq> ''[DONE]''
              \<and> (Contains p ''"error":'' \<longrightarrow> Unmarshal_APIError E p = None)
              \<and> (\<exists>c. Unmarshal_StreamChunk E p = Inr c))\<close>
    and "newline \<notin> set d" and "data_of (d @ [newline]) = Some ''[DONE]''"
  shows "stream_goroutine E ctxErr \<lparr>Data = lines_text ls @ d @ newline # rest, End = e\<rparr>
      = map Send (chunks_of E ls) @ [Close]
    \<and> length (chunks_of E ls) = length (filter (\<lambda>l. data_of (l @ [newline]) \<noteq> None) ls)
    \<and> (\<forall>c\<in>set (chunks_of E ls). \<exists>x. c = Chunk x)"
proof (intro conjI)
  show "stream_goroutine E ctxErr \<lparr>Data = lines_text ls @ d @ newline # rest, End = e\<rparr>
      = map Send (chunks_of E ls) @ [Close]"
    using reader_lines [OF assms(1), of ctxErr "d @ newline # rest" e]
      reader_done_line [OF assms(2,3), of E ctxErr rest e]
    by (simp add: stream_goroutine_def)
  show "length (chunks_of E ls) = length (filter (\<lambda>l. data_of (l @ [newline]) \<noteq> None) ls)"
    using assms(1) by (intro length_chunks_of) blast
  show "\<forall>c\<in>set (chunks_of E ls). \<exists>x. c = Chunk x"
    by (blast dest: chunks_of_content)
qed

text \<open>
  The stream of \<^verbatim>\<open>TestChat_Stream_Success\<close>, with a comment line added: two chunks, in
  order, then the channel is closed.
\<close>

lemma round_trip_success:
  \<open>stream_goroutine (go_env :: (ChatParams, json, string list) env) False
     \<lparr>Data = lines_text
        [''data: {"choices": [{"delta": {"content": "Hello"}}]}'', [], '': keep-alive'',
         ''data: {"choices": [{"delta": {"content": "!"}}]}'', []]
        @ ''data: [DONE]'' @ newline # [newline],
      End = EOF\<rparr>
   = [Send (Chunk [''Hello'']), Send (Chunk [''!'']), Close]\<close>
  using round_trip
    [of \<open>[''data: {"choices": [{"delta": {"content": "Hello"}}]}'', [], '': keep-alive'',
         ''data: {"choices": [{"delta": {"content": "!"}}]}'', []]\<close>
        "go_env :: (ChatParams, json, string list) env" "''data: [DONE]''" False "[newline]" EOF]
    hello bang other_lines
  by (simp add: chunks_of_def go_env_def newline_def)

subsection \<open>Cancellation\<close>

text \<open>
  With the context cancelled, the reader sends what it would send if the body ended with
  EOF where the read fails: the failure adds no chunk.
\<close>

lemma ReadString_End:
  "ReadString (b\<lparr>End := e\<rparr>) =
     (case ReadString b of
        (line, None, b') \<Rightarrow> (line, None, b'\<lparr>End := e\<rparr>)
      | (line, Some err, b') \<Rightarrow> (line, Some e, b'\<lparr>End := e\<rparr>))"
  by (simp add: ReadString_def)

lemma cancelled_like_EOF:
  "reader E True b = reader E False (b\<lparr>End := EOF\<rparr>)"
proof (induction E "True" b rule: reader.induct)
  case (1 E b)
  show ?case
  proof (cases "newline \<in> set (Data b)")
    case False
    then show ?thesis
      by (simp add: reader_step_end)
  next
    case True
    obtain line b' where r: "ReadString b = (line, None, b')"
      using True by (simp add: ReadString_def)
    then have r': "ReadString (b\<lparr>End := EOF\<rparr>) = (line, None, b'\<lparr>End := EOF\<rparr>)"
      by (simp add: ReadString_End)
    obtain sent continue where t: "turn E True b = (sent, continue)"
      by (cases "turn E True b")
    show ?thesis
    proof (cases continue)
      case None
      with t r have "turn E False (b\<lparr>End := EOF\<rparr>) = (sent, None)"
        unfolding turn_def r r'
        by (auto simp: Let_def split: if_splits option.splits sum.splits)
      with t None show ?thesis
        by (simp add: reader_unfold [of E _ b] reader_unfold [of E _ "b\<lparr>End := EOF\<rparr>"])
    next
      case (Some b'')
      with t r have b'': "b'' = b'"
        unfolding turn_def r
        by (auto simp: Let_def split: if_splits option.splits sum.splits)
      from Some t r have "turn E False (b\<lparr>End := EOF\<rparr>) = (sent, Some (b'\<lparr>End := EOF\<rparr>))"
        unfolding turn_def r r'
        by (auto simp: Let_def split: if_splits option.splits sum.splits)
      moreover have "reader E True b' = reader E False (b'\<lparr>End := EOF\<rparr>)"
        using "1" [OF t [symmetric]] Some b'' by simp
      ultimately show ?thesis
        using t Some b''
        by (simp add: reader_unfold [of E _ b] reader_unfold [of E _ "b\<lparr>End := EOF\<rparr>"])
    qed
  qed
qed

lemma turn_cancelled_sent:
  assumes "turn E True b = (sent, continue)"
  shows "ErrChunk (Wrapf ''stream read'' m) \<notin> set sent"
  using assms
  by (auto simp: turn_def Let_def
      split: prod.splits option.splits if_splits sum.splits)

lemma turn_cancelled_failure:
  assumes "newline \<notin> set (Data b)"
  shows "turn E True b = ([], None)"
  by (simp add: turn_end [OF assms])

lemma perform_events:
  assumes "ctx_done s"
  shows "\<exists>new. events (perform E a s) = events s @ new
     \<and> (\<forall>m. Send (ErrChunk (Wrapf ''stream read'' m)) \<notin> set new)"
proof (cases a)
  case ReaderTurn
  obtain sent continue where t: "turn E True (pending_body s) = (sent, continue)"
    by (cases "turn E True (pending_body s)")
  then have "\<forall>m. ErrChunk (Wrapf ''stream read'' m) \<notin> set sent"
    using turn_cancelled_sent [of E "pending_body s" sent continue] by simp
  then have "\<forall>m. Send (ErrChunk (Wrapf ''stream read'' m))
      \<notin> set (map Send sent @ (if continue = None then [Close] else []))"
    by auto
  moreover have "events (perform E a s)
      = events s @ map Send sent @ (if continue = None then [Close] else [])"
    using ReaderTurn t assms by (cases continue) simp_all
  ultimately show ?thesis
    by blast
qed simp_all

lemma perform_invariant:
  assumes "cancel_invariant s" and "enabled a s"
  shows "cancel_invariant (perform E a s)"
proof (cases a)
  case ReaderTurn
  obtain sent continue where "turn E (ctx_done s) (pending_body s) = (sent, continue)"
    by (cases "turn E (ctx_done s) (pending_body s)")
  with ReaderTurn assms show ?thesis
    by (cases continue) (auto simp: cancel_invariant_def)
qed (use assms in \<open>auto simp: cancel_invariant_def\<close>)

lemma run_invariant:
  assumes "run E schedule s = Some s'" and "cancel_invariant s"
  shows "cancel_invariant s'"
  using assms
proof (induction schedule arbitrary: s)
  case Nil
  then show ?case
    by simp
next
  case (Cons a schedule)
  then have "enabled a s" and "run E schedule (perform E a s) = Some s'"
    by (simp_all split: if_splits)
  with Cons show ?case
    by (blast intro: perform_invariant)
qed

text \<open>
  Claim C5. In every state that the reader and the watcher reach from the start of the
  stream:
  \<^item> once the context is cancelled, the watcher can run, and it closes the body;
  \<^item> when the body is closed while the reader runs, the context is cancelled and the
    reader's read returns, so the reader takes its turn;
  \<^item> a read that fails while the context is cancelled makes the reader return: the channel
    is closed and no chunk is sent;
  \<^item> from the cancellation on, nothing that happens sends a chunk that reports a failed
    read;
  \<^item> and on every body, a reader whose context is cancelled produces the events of a
    reader whose body ends with EOF at the failing read.
\<close>

theorem cancellation_closes_silently:
  assumes "run E schedule init = Some s"
  shows "(ctx_done s \<and> \<not> watcher_done s
            \<longrightarrow> enabled Watch s \<and> body_closed (perform E Watch s))
    \<and> (body_closed s \<and> \<not> reader_done s \<longrightarrow> ctx_done s \<and> enabled ReaderTurn s)
    \<and> (ctx_done s \<and> enabled ReaderTurn s \<and> newline \<notin> set (received s)
            \<longrightarrow> perform E ReaderTurn s
                  = s\<lparr>reader_done := True, body_closed := True, events := events s @ [Close]\<rparr>)
    \<and> (\<forall>a. ctx_done s
            \<longrightarrow> (\<exists>new. events (perform E a s) = events s @ new
                  \<and> (\<forall>m. Send (ErrChunk (Wrapf ''stream read'' m)) \<notin> set new)))
    \<and> (\<forall>b. stream_goroutine E True b = stream_goroutine E False (b\<lparr>End := EOF\<rparr>))"
proof (intro conjI impI allI)
  have inv: "cancel_invariant s"
    using run_invariant [OF assms] by (simp add: cancel_invariant_def init_def)
  show "enabled Watch s" if "ctx_done s \<and> \<not> watcher_done s"
    using that by simp
  show "body_closed (perform E Watch s)"
    by simp
  show "ctx_done s" if "body_closed s \<and> \<not> reader_done s"
    using that inv by (simp add: cancel_invariant_def)
  show "enabled ReaderTurn s" if "body_closed s \<and> \<not> reader_done s"
    using that by (simp add: read_returns_def)
  show "perform E ReaderTurn s
      = s\<lparr>reader_done := True, body_closed := True, events := events s @ [Close]\<rparr>"
    if "ctx_done s \<and> enabled ReaderTurn s \<and> newline \<notin> set (received s)"
    using that turn_cancelled_failure [of "pending_body s" E]
    by (simp add: pending_body_def)
  show "\<exists>new. events (perform E a s) = events s @ new
      \<and> (\<forall>m. Send (ErrChunk (Wrapf ''stream read'' m)) \<notin> set new)"
    if "ctx_done s" for a
    using that by (rule perform_events)
  show "stream_goroutine E True b = stream_goroutine E False (b\<lparr>End := EOF\<rparr>)" for b
    by (simp add: stream_goroutine_def cancelled_like_EOF)
qed

text \<open>
  Half a line has arrived when the caller cancels; the watcher closes the body. The
  reader's read then returns, and its turn closes the channel without a chunk.
\<close>

theorem cancellation_closes_silently_witness:
  \<open>run (go_env :: (ChatParams, json, string list) env)
     [Arrive ''data: {"choices": [{"de'', Cancel, Watch] init
     = Some \<lparr>ctx_done = True, body_closed = True, watcher_done = True,
             received = ''data: {"choices": [{"de'', ended = None, reader_done = False,
             events = []\<rparr>
   \<and> enabled ReaderTurn
       \<lparr>ctx_done = True, body_closed = True, watcher_done = True,
        received = ''data: {"choices": [{"de'', ended = None, reader_done = False,
        events = [] :: string list event list\<rparr>
   \<and> perform (go_env :: (ChatParams, json, string list) env) ReaderTurn
       \<lparr>ctx_done = True, body_closed = True, watcher_done = True,
        received = ''data: {"choices": [{"de'', ended = None, reader_done = False,
        events = []\<rparr>
     = \<lparr>ctx_done = True, body_closed = True, watcher_done = True,
        received = ''data: {"choices": [{"de'', ended = None, reader_done = True,
        events = [Close]\<rparr>\<close>
proof -
  have r: \<open>run (go_env :: (ChatParams, json, string list) env)
     [Arrive ''data: {"choices": [{"de'', Cancel, Watch] init
     = Some \<lparr>ctx_done = True, body_closed = True, watcher_done = True,
             received = ''data: {"choices": [{"de'', ended = None, reader_done = False,
             events = []\<rparr>\<close>
    by (simp add: init_def)
  show ?thesis
    using r cancellation_closes_silently [OF r]
    by (simp add: read_returns_def newline_def)
qed

end
